theory Spec2Isabelle
  imports Complex_Main
begin

section \<open>Python values\<close>

text \<open>
  The value that \<^verbatim>\<open>res.json()\<close> returns: a Python \<^verbatim>\<open>dict\<close>, \<^verbatim>\<open>list\<close>, \<^verbatim>\<open>str\<close>,
  \<^verbatim>\<open>int\<close>, \<^verbatim>\<open>float\<close>, \<^verbatim>\<open>bool\<close> or \<^verbatim>\<open>None\<close>. A \<^verbatim>\<open>dict\<close> is an association list
  in insertion order, with distinct keys. A \<^verbatim>\<open>str\<close> is held as the bytes of its UTF-8
  encoding; its characters are the code points. (A \<^verbatim>\<open>str\<close> with a lone surrogate has
  no UTF-8 encoding and is not represented.)
\<close>

datatype json =
    JNull
  | JBool bool
  | JInt int
  | JFloat real
  | JStr string
  | JArray "json list"
  | JObject "(string \<times> json) list"

text \<open>A byte from 0x80 to 0xBF continues the code point of the byte before it.\<close>

definition is_continuation :: "char \<Rightarrow> bool" where
  "is_continuation c = (128 \<le> (of_char c :: nat) \<and> (of_char c :: nat) < 192)"

text \<open>The characters of a \<^verbatim>\<open>str\<close>, each with its bytes.\<close>

function utf8_chars :: "string \<Rightarrow> string list" where
  "utf8_chars [] = []"
| "utf8_chars (c # cs) =
     (c # takeWhile is_continuation cs) # utf8_chars (dropWhile is_continuation cs)"
  by pat_completeness auto
termination
  by (relation "measure length") (auto simp: length_dropWhile_le less_Suc_eq_le)

text \<open>The slice \<^verbatim>\<open>value[:n]\<close> of a \<^verbatim>\<open>str\<close>.\<close>

definition utf8_take :: "nat \<Rightarrow> string \<Rightarrow> string" where
  "utf8_take n s = concat (take n (utf8_chars s))"

text \<open>
  Exception classes. An exception raised inside one of the two \<^verbatim>\<open>try\<close> blocks is
  logged with its text \<^verbatim>\<open>str(exc)\<close>, so it carries class and text; of an exception that
  nothing catches only the class is kept.
\<close>

datatype exn_class =
    HTTPError | RequestException | JSONDecodeError | ValueError
  | AttributeError | TypeError | SMTPException | OSError | IllegalCharacterError

datatype exn = Exn (exn_class: exn_class) (exn_str: string)

text \<open>\<^verbatim>\<open>isinstance(data, dict)\<close>\<close>

fun is_dict :: "json \<Rightarrow> bool" where
  "is_dict (JObject kvs) = True"
| "is_dict v = False"

text \<open>
  \<^verbatim>\<open>for item in data\<close>: a list yields its elements, a dict its keys, a string its
  characters; every other value raises \<^verbatim>\<open>TypeError\<close>.
\<close>

fun py_iter :: "json \<Rightarrow> exn_class + json list" where
  "py_iter (JArray xs) = Inr xs"
| "py_iter (JObject kvs) = Inr (map (\<lambda>kv. JStr (fst kv)) kvs)"
| "py_iter (JStr s) = Inr (map JStr (utf8_chars s))"
| "py_iter v = Inl TypeError"

text \<open>\<^verbatim>\<open>len(x)\<close>\<close>

fun py_len :: "json \<Rightarrow> exn_class + nat" where
  "py_len (JArray xs) = Inr (length xs)"
| "py_len (JObject kvs) = Inr (length kvs)"
| "py_len (JStr s) = Inr (length (utf8_chars s))"
| "py_len v = Inl TypeError"

text \<open>
  \<^verbatim>\<open>item.get(key)\<close>: on a dict the stored value, or \<^verbatim>\<open>None\<close> (here \<open>JNull\<close>) when
  the key is absent; every other value has no attribute \<^verbatim>\<open>get\<close>.
\<close>

definition dict_get :: "(string \<times> json) list \<Rightarrow> string \<Rightarrow> json" where
  "dict_get kvs key = (case map_of kvs key of None \<Rightarrow> JNull | Some v \<Rightarrow> v)"

fun item_get :: "json \<Rightarrow> string \<Rightarrow> exn_class + json" where
  "item_get (JObject kvs) key = Inr (dict_get kvs key)"
| "item_get v key = Inl AttributeError"

text \<open>\<^verbatim>\<open>str(n)\<close> for a length or a status code.\<close>

fun str_nat :: "nat \<Rightarrow> string" where
  "str_nat n =
     (if n < 10 then [''0123456789'' ! n]
      else str_nat (n div 10) @ [''0123456789'' ! (n mod 10)])"

declare str_nat.simps [simp del]

text \<open>\<^verbatim>\<open>"\n".join(lines)\<close>\<close>

fun join_lines :: "string list \<Rightarrow> string" where
  "join_lines [] = []"
| "join_lines [l] = l"
| "join_lines (l # ls) = l @ [CHR 0x0A] @ join_lines ls"

section \<open>The world outside the program\<close>

subsection \<open>Worksheets (openpyxl)\<close>

text \<open>
  A cell holds its value, its data type (\<^verbatim>\<open>'n'\<close>, \<^verbatim>\<open>'s'\<close>, \<^verbatim>\<open>'b'\<close>, \<^verbatim>\<open>'f'\<close>,
  \<^verbatim>\<open>'e'\<close>) and whether it carries the header style (bold font, solid fill).
\<close>

datatype cell_type = NumericCell | StringCell | BoolCell | FormulaCell | ErrorCell

record cell =
  cell_value :: json
  data_type :: cell_type
  header_style :: bool

text \<open>
  A worksheet is its title and its rows, one entry for each row up to the last one
  appended or touched; the entry for row \<open>r\<close> holds the cells of that row, which are always
  the cells of columns 1 to some \<open>k\<close> (an appended row and a row filled up by an iteration
  both start at column 1). A row without cells has the entry \<open>[]\<close>; such rows are not
  written to the file unless a later row has cells.
\<close>

record worksheet =
  ws_title :: string
  ws_rows :: "cell list list"

type_synonym workbook = "worksheet list"

subsection \<open>Files, HTTP, mail\<close>

datatype fcontent = Bytes string | Xlsx workbook

text \<open>\<^verbatim>\<open>os.path.getsize\<close>: a saved workbook is a zip archive, never empty.\<close>

fun fsize_pos :: "fcontent \<Rightarrow> bool" where
  "fsize_pos (Bytes s) = (s \<noteq> [])"
| "fsize_pos (Xlsx wb) = True"

record response =
  status_code :: nat
  reason :: string
  resp_url :: string
  json_result :: "exn + json"

record attachment =
  content_disposition :: string
  payload :: fcontent

record message =
  msg_from :: "string option"
  msg_to :: "string option"
  msg_subject :: string
  msg_body :: string
  msg_parts :: "attachment list"

type_synonym headers = "(string \<times> string) list"

text \<open>
  Everything the script reads or changes: the environment variables, the files of the
  working directory, the remote HTTP servers (the answer to the \<open>n\<close>-th request of the run),
  the requests sent so far, the mail server (what each call of the SMTP session raises,
  if anything), the messages it accepted, the console, and the two clock readings
  (\<^verbatim>\<open>asctime\<close> of the logging module, \<^verbatim>\<open>datetime.utcnow().isoformat()\<close>), taken
  as constant over a run. Files are a flat store: creating, writing and reading a file
  never fails, and neither does printing to the console. The field \<open>py_int\<close> is the built-in \<^verbatim>\<open>int\<close> of the interpreter on a
  \<^verbatim>\<open>str\<close>: the integer, or \<open>None\<close> where it raises \<^verbatim>\<open>ValueError\<close>.
\<close>

record world =
  environ :: "string \<rightharpoonup> string"
  py_int :: "string \<Rightarrow> int option"
  files :: "string \<rightharpoonup> fcontent"
  http_server :: "nat \<Rightarrow> string \<Rightarrow> headers option \<Rightarrow> exn + response"
  requests_sent :: "(string \<times> headers option) list"
  smtp_connect :: "string option \<Rightarrow> int \<Rightarrow> exn option"
  smtp_starttls :: "exn option"
  smtp_login :: "string option \<Rightarrow> string option \<Rightarrow> exn option"
  smtp_send_message :: "message \<Rightarrow> exn option"
  smtp_quit :: "exn option"
  outbox :: "message list"
  stdout :: "string list"
  asctime :: string
  utcnow_isoformat :: string

definition print :: "string \<Rightarrow> world \<Rightarrow> world" where
  "print line w = w\<lparr>stdout := stdout w @ [line]\<rparr>"

definition path_exists :: "world \<Rightarrow> string \<Rightarrow> bool" where
  "path_exists w p = (files w p \<noteq> None)"

definition getsize_pos :: "world \<Rightarrow> string \<Rightarrow> bool" where
  "getsize_pos w p = (case files w p of None \<Rightarrow> False | Some c \<Rightarrow> fsize_pos c)"

section \<open>Logging setup\<close>

definition LOG_FILE :: string where
  "LOG_FILE = ''error.log''"

text \<open>The text of the log file; a file that is absent has none.\<close>

definition log_text :: "world \<Rightarrow> string" where
  "log_text w = (case files w LOG_FILE of Some (Bytes s) \<Rightarrow> s | _ \<Rightarrow> [])"

text \<open>
  \<^verbatim>\<open>logging.basicConfig(filename=LOG_FILE, ...)\<close> opens the file for appending: an
  existing file keeps its content, a missing one is created empty.
\<close>

definition logging_basicConfig :: "world \<Rightarrow> world" where
  "logging_basicConfig w =
     (case files w LOG_FILE of
        None \<Rightarrow> w\<lparr>files := (files w)(LOG_FILE \<mapsto> Bytes [])\<rparr>
      | Some c \<Rightarrow> w)"

text \<open>One record in the format \<^verbatim>\<open>%(asctime)s [%(levelname)s] %(message)s\<close>.\<close>

definition error_entry :: "string \<Rightarrow> string \<Rightarrow> string \<Rightarrow> string" where
  "error_entry ts context_str err = ts @ '' [ERROR] '' @ context_str @ '': '' @ err @ [CHR 0x0A]"

definition log_error :: "string \<Rightarrow> exn \<Rightarrow> world \<Rightarrow> world" where
  "log_error context_str exc w =
     w\<lparr>files := (files w)(LOG_FILE \<mapsto>
          Bytes (log_text w @ error_entry (asctime w) context_str (exn_str exc)))\<rparr>"

section \<open>API helpers\<close>

text \<open>
  \<^verbatim>\<open>Response.raise_for_status\<close> of the requests library raises \<^verbatim>\<open>HTTPError\<close> for a
  status from 400 to 599 and for no other status.
\<close>

definition raise_for_status :: "response \<Rightarrow> exn option" where
  "raise_for_status res =
     (if 400 \<le> status_code res \<and> status_code res < 500 then
        Some (Exn HTTPError (str_nat (status_code res) @ '' Client Error: '' @ reason res
                @ '' for url: '' @ resp_url res))
      else if 500 \<le> status_code res \<and> status_code res < 600 then
        Some (Exn HTTPError (str_nat (status_code res) @ '' Server Error: '' @ reason res
                @ '' for url: '' @ resp_url res))
      else None)"

text \<open>\<^verbatim>\<open>requests.get(url, headers=headers, timeout=20)\<close>: the request goes out, the server answers.\<close>

definition requests_get :: "string \<Rightarrow> headers option \<Rightarrow> world \<Rightarrow> (exn + response) \<times> world" where
  "requests_get url hdrs w =
     (http_server w (length (requests_sent w)) url hdrs,
      w\<lparr>requests_sent := requests_sent w @ [(url, hdrs)]\<rparr>)"

text \<open>The body of the \<^verbatim>\<open>try\<close> block of \<^verbatim>\<open>fetch_api_data\<close>.\<close>

definition fetch_try :: "string \<Rightarrow> headers option \<Rightarrow> world \<Rightarrow> (exn + json) \<times> world" where
  "fetch_try url hdrs w =
     (case requests_get url hdrs (print (''Calling API: '' @ url) w) of
        (Inl e, w') \<Rightarrow> (Inl e, w')
      | (Inr res, w') \<Rightarrow>
          (case raise_for_status res of
             Some e \<Rightarrow> (Inl e, w')
           | None \<Rightarrow>
               (case json_result res of
                  Inl e \<Rightarrow> (Inl e, w')
                | Inr data \<Rightarrow> (Inr (if is_dict data then JArray [data] else data), w'))))"

definition fetch_api_data :: "string \<Rightarrow> headers option \<Rightarrow> world \<Rightarrow> json \<times> world" where
  "fetch_api_data url hdrs w =
     (case fetch_try url hdrs w of
        (Inr data, w') \<Rightarrow> (data, w')
      | (Inl e, w') \<Rightarrow>
          (JArray [],
           print (''ERROR: API call failed for '' @ url @ '', check '' @ LOG_FILE)
             (log_error (''API call failed for '' @ url) e w')))"

section \<open>Excel helpers\<close>

subsection \<open>What openpyxl does with a value, a row and a sheet\<close>

text \<open>
  Binding a value to a cell. A \<^verbatim>\<open>list\<close> or \<^verbatim>\<open>dict\<close> has no cell type:
  \<^verbatim>\<open>ValueError\<close>. A string is cut to its first 32767 characters and must then hold no
  character from 0x00-0x08, 0x0B, 0x0C, 0x0E-0x1F: \<^verbatim>\<open>IllegalCharacterError\<close>.
\<close>

definition illegal_character :: "char \<Rightarrow> bool" where
  "illegal_character c =
     (let n = of_char c :: nat in n \<le> 8 \<or> n = 11 \<or> n = 12 \<or> (14 \<le> n \<and> n \<le> 31))"

fun cell_error :: "json \<Rightarrow> exn_class option" where
  "cell_error (JArray xs) = Some ValueError"
| "cell_error (JObject kvs) = Some ValueError"
| "cell_error (JStr s) =
     (if list_ex illegal_character (utf8_take 32767 s) then Some IllegalCharacterError else None)"
| "cell_error v = None"

definition ERROR_CODES :: "string list" where
  "ERROR_CODES = [''#NULL!'', ''#DIV/0!'', ''#VALUE!'', ''#REF!'', ''#NAME?'', ''#NUM!'', ''#N/A'']"

definition string_type :: "string \<Rightarrow> cell_type" where
  "string_type v =
     (if 1 < length (utf8_chars v) \<and> take 1 v = ''='' then FormulaCell
      else if v \<in> set ERROR_CODES then ErrorCell
      else StringCell)"

text \<open>The cell that holds a value that was accepted.\<close>

fun new_cell :: "json \<Rightarrow> cell" where
  "new_cell (JStr s) =
     \<lparr>cell_value = JStr (utf8_take 32767 s), data_type = string_type (utf8_take 32767 s),
      header_style = False\<rparr>"
| "new_cell (JBool b) = \<lparr>cell_value = JBool b, data_type = BoolCell, header_style = False\<rparr>"
| "new_cell v = \<lparr>cell_value = v, data_type = NumericCell, header_style = False\<rparr>"

definition bind_value :: "json \<Rightarrow> exn_class + cell" where
  "bind_value v = (case cell_error v of Some e \<Rightarrow> Inl e | None \<Rightarrow> Inr (new_cell v))"

text \<open>The cells of a row, bound from left to right; the first value refused ends it.\<close>

fun bind_row :: "json list \<Rightarrow> exn_class + cell list" where
  "bind_row [] = Inr []"
| "bind_row (v # vs) =
     (case bind_value v of
        Inl e \<Rightarrow> Inl e
      | Inr c \<Rightarrow> (case bind_row vs of Inl e \<Rightarrow> Inl e | Inr cs \<Rightarrow> Inr (c # cs)))"

text \<open>\<^verbatim>\<open>ws.append(row)\<close>: the cells go to the row after the current one.\<close>

definition ws_append :: "json list \<Rightarrow> worksheet \<Rightarrow> exn_class + worksheet" where
  "ws_append row ws =
     (case bind_row row of
        Inl e \<Rightarrow> Inl e
      | Inr cells \<Rightarrow> Inr (ws\<lparr>ws_rows := ws_rows ws @ [cells]\<rparr>))"

text \<open>
  \<^verbatim>\<open>ws.max_column\<close> and \<^verbatim>\<open>ws.max_row\<close>: the largest column and row that hold a cell,
  and 1 for a sheet without cells.
\<close>

fun max_list :: "nat list \<Rightarrow> nat" where
  "max_list [] = 0"
| "max_list (n # ns) = max n (max_list ns)"

definition max_column :: "worksheet \<Rightarrow> nat" where
  "max_column ws = (let k = max_list (map length (ws_rows ws)) in if k = 0 then 1 else k)"

definition max_row :: "worksheet \<Rightarrow> nat" where
  "max_row ws =
     (let r = length (dropWhile (\<lambda>row. row = []) (rev (ws_rows ws))) in if r = 0 then 1 else r)"

text \<open>An iteration over a row creates the cells it does not find, empty and unstyled.\<close>

definition blank_cell :: cell where
  "blank_cell = \<lparr>cell_value = JNull, data_type = NumericCell, header_style = False\<rparr>"

definition pad_row :: "nat \<Rightarrow> cell list \<Rightarrow> cell list" where
  "pad_row k row = row @ replicate (k - length row) blank_cell"

subsection \<open>The functions of the script\<close>

text \<open>
  \<^verbatim>\<open>style_header(ws[1])\<close>: \<^verbatim>\<open>ws[1]\<close> is row 1 from column 1 to \<^verbatim>\<open>ws.max_column\<close>, its
  missing cells created; each of these cells gets the bold font and the fill.
\<close>

definition set_header_style :: "cell \<Rightarrow> cell" where
  "set_header_style c = c\<lparr>header_style := True\<rparr>"

definition style_header :: "worksheet \<Rightarrow> worksheet" where
  "style_header ws =
     (case ws_rows ws of
        [] \<Rightarrow> ws\<lparr>ws_rows := [map set_header_style (pad_row (max_column ws) [])]\<rparr>
      | row1 # rest \<Rightarrow>
          ws\<lparr>ws_rows := map set_header_style (pad_row (max_column ws) row1) # rest\<rparr>)"

text \<open>
  \<^verbatim>\<open>autosize_columns(ws)\<close>: \<^verbatim>\<open>ws.columns\<close> yields nothing for a sheet on which no row
  was ever appended or touched; otherwise it walks columns 1 to \<^verbatim>\<open>ws.max_column\<close>, rows
  1 to \<^verbatim>\<open>ws.max_row\<close>, creating the cells it does not find, and raises \<^verbatim>\<open>ValueError\<close>
  for a row number above 1048576; \<^verbatim>\<open>column_letter\<close> raises \<^verbatim>\<open>ValueError\<close> for a column
  above 18278. The widths it sets are presentation only and are not kept here.
\<close>

definition autosize_columns :: "worksheet \<Rightarrow> exn_class + worksheet" where
  "autosize_columns ws =
     (if ws_rows ws = [] then Inr ws
      else if 1048576 < max_row ws \<or> 18278 < max_column ws then Inl ValueError
      else Inr (ws\<lparr>ws_rows := map (pad_row (max_column ws)) (take (max_row ws) (ws_rows ws))
                               @ drop (max_row ws) (ws_rows ws)\<rparr>))"

text \<open>The inner loop \<^verbatim>\<open>for key in field_mapping.values(): row.append(item.get(key))\<close>.\<close>

fun build_row :: "json \<Rightarrow> string list \<Rightarrow> exn_class + json list" where
  "build_row item [] = Inr []"
| "build_row item (key # keys) =
     (case item_get item key of
        Inl e \<Rightarrow> Inl e
      | Inr v \<Rightarrow> (case build_row item keys of Inl e \<Rightarrow> Inl e | Inr vs \<Rightarrow> Inr (v # vs)))"

text \<open>The outer loop \<^verbatim>\<open>for item in data: ...; ws.append(row)\<close>.\<close>

fun write_rows :: "worksheet \<Rightarrow> json list \<Rightarrow> string list \<Rightarrow> exn_class + worksheet" where
  "write_rows ws [] keys = Inr ws"
| "write_rows ws (item # items) keys =
     (case build_row item keys of
        Inl e \<Rightarrow> Inl e
      | Inr row \<Rightarrow>
          (case ws_append row ws of
             Inl e \<Rightarrow> Inl e
           | Inr ws' \<Rightarrow> write_rows ws' items keys))"

definition write_sheet_from_json ::
  "worksheet \<Rightarrow> json \<Rightarrow> (string \<times> string) list \<Rightarrow> exn_class + worksheet" where
  "write_sheet_from_json ws data field_mapping =
     (case ws_append (map JStr (map fst field_mapping)) ws of
        Inl e \<Rightarrow> Inl e
      | Inr ws1 \<Rightarrow>
          (let ws2 = style_header ws1
           in case py_iter data of
                Inl e \<Rightarrow> Inl e
              | Inr items \<Rightarrow>
                  (case write_rows ws2 items (map snd field_mapping) of
                     Inl e \<Rightarrow> Inl e
                   | Inr ws3 \<Rightarrow> autosize_columns ws3)))"

definition user_mapping :: "(string \<times> string) list" where
  "user_mapping =
     [(''ID'', ''id''), (''Name'', ''name''), (''Username'', ''username''), (''Email'', ''email'')]"

definition post_mapping :: "(string \<times> string) list" where
  "post_mapping = [(''ID'', ''id''), (''User ID'', ''userId''), (''Title'', ''title'')]"

definition todo_mapping :: "(string \<times> string) list" where
  "todo_mapping =
     [(''ID'', ''id''), (''User ID'', ''userId''), (''Title'', ''title''),
      (''Completed'', ''completed'')]"

text \<open>\<^verbatim>\<open>wb.active\<close> after its title is set, and \<^verbatim>\<open>wb.create_sheet(title)\<close>: an empty sheet.\<close>

definition new_sheet :: "string \<Rightarrow> worksheet" where
  "new_sheet title = \<lparr>ws_title = title, ws_rows = []\<rparr>"

text \<open>\<^verbatim>\<open>wb.save(file_path)\<close> replaces whatever the path held.\<close>

definition wb_save :: "workbook \<Rightarrow> string \<Rightarrow> world \<Rightarrow> world" where
  "wb_save wb file_path w = w\<lparr>files := (files w)(file_path \<mapsto> Xlsx wb)\<rparr>"

definition create_report_excel ::
  "json \<Rightarrow> json \<Rightarrow> json \<Rightarrow> string \<Rightarrow> world \<Rightarrow> (exn_class + string) \<times> world" where
  "create_report_excel users posts todos file_path w =
     (case write_sheet_from_json (new_sheet ''Users'') users user_mapping of
        Inl e \<Rightarrow> (Inl e, w)
      | Inr ws_users \<Rightarrow>
          (case write_sheet_from_json (new_sheet ''Posts'') posts post_mapping of
             Inl e \<Rightarrow> (Inl e, w)
           | Inr ws_posts \<Rightarrow>
               (case write_sheet_from_json (new_sheet ''Todos'') todos todo_mapping of
                  Inl e \<Rightarrow> (Inl e, w)
                | Inr ws_todos \<Rightarrow>
                    (Inr file_path, wb_save [ws_users, ws_posts, ws_todos] file_path w))))"

section \<open>Email helper\<close>

text \<open>\<^verbatim>\<open>os.path.basename\<close>: what follows the last slash.\<close>

definition basename :: "string \<Rightarrow> string" where
  "basename p = rev (takeWhile (\<lambda>c. c \<noteq> CHR ''/'') (rev p))"

text \<open>
  The loop \<^verbatim>\<open>for file_path in attachments\<close>: a path for which \<^verbatim>\<open>os.path.exists\<close> is
  false is passed over by \<^verbatim>\<open>continue\<close>; any other file is read and attached under its
  base name. The base64 transfer encoding is not modelled: a part holds the file content.
\<close>

fun attach_files :: "world \<Rightarrow> string list \<Rightarrow> attachment list" where
  "attach_files w [] = []"
| "attach_files w (file_path # rest) =
     (case files w file_path of
        None \<Rightarrow> attach_files w rest
      | Some data \<Rightarrow>
          \<lparr>content_disposition = ''attachment; filename='' @ basename file_path,
           payload = data\<rparr> # attach_files w rest)"

definition build_message ::
  "world \<Rightarrow> string option \<Rightarrow> string option \<Rightarrow> string \<Rightarrow> string \<Rightarrow> string list \<Rightarrow> message" where
  "build_message w smtp_user to_email subject body attachments =
     \<lparr>msg_from = smtp_user, msg_to = to_email, msg_subject = subject, msg_body = body,
      msg_parts = attach_files w attachments\<rparr>"

text \<open>
  The body of the \<^verbatim>\<open>try\<close> block: connect, \<^verbatim>\<open>starttls\<close>, \<^verbatim>\<open>login\<close>, \<^verbatim>\<open>send_message\<close>,
  \<^verbatim>\<open>quit\<close>; the first call that raises ends it.
\<close>

definition smtp_session ::
  "string option \<Rightarrow> int \<Rightarrow> string option \<Rightarrow> string option \<Rightarrow> message \<Rightarrow> world
     \<Rightarrow> exn option \<times> world" where
  "smtp_session smtp_host smtp_port smtp_user smtp_pass msg w =
     (case smtp_connect w smtp_host smtp_port of
        Some e \<Rightarrow> (Some e, w)
      | None \<Rightarrow>
     (case smtp_starttls w of
        Some e \<Rightarrow> (Some e, w)
      | None \<Rightarrow>
     (case smtp_login w smtp_user smtp_pass of
        Some e \<Rightarrow> (Some e, w)
      | None \<Rightarrow>
     (case smtp_send_message w msg of
        Some e \<Rightarrow> (Some e, w)
      | None \<Rightarrow>
     (case smtp_quit w of
        Some e \<Rightarrow> (Some e, w\<lparr>outbox := outbox w @ [msg]\<rparr>)
      | None \<Rightarrow> (None, print ''Email sent successfully!'' (w\<lparr>outbox := outbox w @ [msg]\<rparr>)))))))"

definition send_email_with_attachments ::
  "string option \<Rightarrow> int \<Rightarrow> string option \<Rightarrow> string option \<Rightarrow> string option \<Rightarrow> string
     \<Rightarrow> string \<Rightarrow> string list \<Rightarrow> world \<Rightarrow> world" where
  "send_email_with_attachments smtp_host smtp_port smtp_user smtp_pass to_email subject body
       attachments w =
     (case smtp_session smtp_host smtp_port smtp_user smtp_pass
             (build_message w smtp_user to_email subject body attachments) w of
        (None, w') \<Rightarrow> w'
      | (Some e, w') \<Rightarrow>
          print ''ERROR: Email sending failed, check error.log''
            (log_error ''Email sending failed'' e w'))"

section \<open>Main flow\<close>

definition getenv_default :: "world \<Rightarrow> string \<Rightarrow> string \<Rightarrow> string" where
  "getenv_default w name dflt = (case environ w name of None \<Rightarrow> dflt | Some v \<Rightarrow> v)"

text \<open>
  \<^verbatim>\<open>headers = {}; if API_KEY: headers["Authorization"] = f"Bearer {API_KEY}"\<close>.
  The test is Python truth: \<^verbatim>\<open>None\<close> and the empty string are both false.
\<close>

definition request_headers :: "world \<Rightarrow> headers" where
  "request_headers w =
     (case environ w ''API_KEY'' of
        None \<Rightarrow> []
      | Some key \<Rightarrow> if key \<noteq> [] then [(''Authorization'', ''Bearer '' @ key)] else [])"

text \<open>\<^verbatim>\<open>os.path.exists(LOG_FILE) and os.path.getsize(LOG_FILE) > 0\<close>\<close>

definition log_has_errors :: "world \<Rightarrow> bool" where
  "log_has_errors w = (path_exists w LOG_FILE \<and> getsize_pos w LOG_FILE)"

text \<open>The warning line starts with the warning sign U+26A0, three bytes in UTF-8.\<close>

definition warning_line :: string where
  "warning_line =
     [CHR 0xE2, CHR 0x9A, CHR 0xA0] @
     '' Some errors were logged during execution. Please check attached system logs on the server / CI artifacts.''"

text \<open>Step 3 of the main flow, given the three lengths.\<close>

definition body_lines :: "nat \<Rightarrow> nat \<Rightarrow> nat \<Rightarrow> world \<Rightarrow> string list" where
  "body_lines n_users n_posts n_todos w =
     [''Hello,'',
      [],
      ''Here is your automated multi-API report.'',
      [],
      ''Users records: '' @ str_nat n_users,
      ''Posts records: '' @ str_nat n_posts,
      ''Todos records: '' @ str_nat n_todos]
     @ (if log_has_errors w then [[], warning_line] else [])
     @ [[],
        ''Generated at: '' @ utcnow_isoformat w @ '' UTC'',
        [],
        ''-- Automation Bot'']"

text \<open>Step 4: the report, and the log when it holds errors.\<close>

definition attachment_paths :: "string \<Rightarrow> world \<Rightarrow> string list" where
  "attachment_paths report_file w =
     [report_file] @ (if log_has_errors w then [LOG_FILE] else [])"

text \<open>
  The script from the logging setup at import to its last line. \<open>Inl e\<close> is the class of
  an exception that nothing caught (the interpreter exits with status 1), \<open>Inr ()\<close> a run
  that reached the end (status 0).
\<close>

definition main :: "world \<Rightarrow> (exn_class + unit) \<times> world" where
  "main w0 =
     (let w1 = print ''Starting multi-API report job...'' (logging_basicConfig w0);
          SMTP_HOST = environ w1 ''SMTP_HOST''
      in case py_int w1 (getenv_default w1 ''SMTP_PORT'' ''587'') of
        None \<Rightarrow> (Inl ValueError, w1)
      | Some SMTP_PORT \<Rightarrow>
     (let SMTP_USER = environ w1 ''SMTP_USER'';
          SMTP_PASS = environ w1 ''SMTP_PASS'';
          TO_EMAIL = environ w1 ''TO_EMAIL'';
          API1_URL = getenv_default w1 ''API1_URL'' ''https://jsonplaceholder.typicode.com/users'';
          API2_URL = getenv_default w1 ''API2_URL'' ''https://jsonplaceholder.typicode.com/posts'';
          API3_URL = getenv_default w1 ''API3_URL'' ''https://jsonplaceholder.typicode.com/todos'';
          hdrs = request_headers w1;
          (users, w2) = fetch_api_data API1_URL (Some hdrs) w1;
          (posts, w3) = fetch_api_data API2_URL (Some hdrs) w2;
          (todos, w4) = fetch_api_data API3_URL (Some hdrs) w3
      in case create_report_excel users posts todos ''daily_report.xlsx''
                (print ''Creating Excel report...'' w4) of
        (Inl e, w5) \<Rightarrow> (Inl e, w5)
      | (Inr report_file, w5) \<Rightarrow>
     (case py_len users of Inl e \<Rightarrow> (Inl e, w5) | Inr n_users \<Rightarrow>
     (case py_len posts of Inl e \<Rightarrow> (Inl e, w5) | Inr n_posts \<Rightarrow>
     (case py_len todos of Inl e \<Rightarrow> (Inl e, w5) | Inr n_todos \<Rightarrow>
     (let email_body = join_lines (body_lines n_users n_posts n_todos w5);
          w6 = print ''Sending email...'' w5;
          w7 = send_email_with_attachments SMTP_HOST SMTP_PORT SMTP_USER SMTP_PASS TO_EMAIL
                 ''Daily Multi-API Report'' email_body (attachment_paths report_file w6) w6
      in (Inr (), print ''Job finished.'' w7)))))))"

section \<open>Conditions on the world and sample worlds\<close>

text \<open>A JSON array all of whose elements are objects: a sequence of records.\<close>

fun is_record_list :: "json \<Rightarrow> bool" where
  "is_record_list (JArray xs) = list_all is_dict xs"
| "is_record_list v = False"

text \<open>
  A record whose values under the given source keys are all accepted by a worksheet cell
  (an absent key counts as \<^verbatim>\<open>None\<close>), and a list of fewer than 1048576 such records.
\<close>

fun record_fits :: "string list \<Rightarrow> json \<Rightarrow> bool" where
  "record_fits keys (JObject kvs) = list_all (\<lambda>key. cell_error (dict_get kvs key) = None) keys"
| "record_fits keys v = False"

fun records_fit :: "string list \<Rightarrow> json \<Rightarrow> bool" where
  "records_fit keys (JArray items) = (length items < 1048576 \<and> list_all (record_fits keys) items)"
| "records_fit keys v = False"

text \<open>
  An answer that a sheet with the given mapping can take: the request fails, the status is
  from 400 to 599, the body is not JSON, or the body is one JSON object or an array of
  JSON objects that fit the mapping's source keys.
\<close>

definition reply_fits :: "(string \<times> string) list \<Rightarrow> exn + response \<Rightarrow> bool" where
  "reply_fits mapping reply =
     (case reply of
        Inl e \<Rightarrow> True
      | Inr res \<Rightarrow>
          (400 \<le> status_code res \<and> status_code res < 600)
          \<or> (case json_result res of
                Inl e \<Rightarrow> True
              | Inr data \<Rightarrow>
                  records_fit (map snd mapping) (if is_dict data then JArray [data] else data)))"

text \<open>\<^verbatim>\<open>int\<close> accepts the text of the port setting (the default when the variable is unset).\<close>

definition valid_port_setting :: "world \<Rightarrow> bool" where
  "valid_port_setting w = (py_int w (getenv_default w ''SMTP_PORT'' ''587'') \<noteq> None)"

subsection \<open>A sample interpreter: \<^verbatim>\<open>int\<close> on ASCII text\<close>

text \<open>
  Python's \<^verbatim>\<open>int\<close> on ASCII text, base 10: white space around, one optional sign directly
  before the digits, decimal digits with single underscores between them. Used by the
  sample worlds only; the claims are stated for any \<open>py_int\<close>.
\<close>

definition is_space :: "char \<Rightarrow> bool" where
  "is_space c = (c \<in> set [CHR 0x09, CHR 0x0A, CHR 0x0B, CHR 0x0C, CHR 0x0D, CHR 0x20])"

definition is_digit :: "char \<Rightarrow> bool" where
  "is_digit c = (c \<in> set ''0123456789'')"

definition digit_val :: "char \<Rightarrow> nat" where
  "digit_val c = of_char c - 48"

fun digits_from :: "nat \<Rightarrow> bool \<Rightarrow> string \<Rightarrow> nat option" where
  "digits_from acc after_underscore [] = (if after_underscore then None else Some acc)"
| "digits_from acc after_underscore (c # cs) =
     (if is_digit c then digits_from (10 * acc + digit_val c) False cs
      else if c = CHR ''_'' \<and> \<not> after_underscore then digits_from acc True cs
      else None)"

definition digits :: "string \<Rightarrow> nat option" where
  "digits s =
     (case s of
        [] \<Rightarrow> None
      | c # cs \<Rightarrow> if is_digit c then digits_from (digit_val c) False cs else None)"

definition strip :: "string \<Rightarrow> string" where
  "strip s = rev (dropWhile is_space (rev (dropWhile is_space s)))"

definition ascii_int :: "string \<Rightarrow> int option" where
  "ascii_int s =
     (case strip s of
        [] \<Rightarrow> None
      | c # cs \<Rightarrow>
          if c = CHR ''-'' then map_option (\<lambda>n. - int n) (digits cs)
          else if c = CHR ''+'' then map_option int (digits cs)
          else map_option int (digits (c # cs)))"

subsection \<open>Sample worlds\<close>

text \<open>
  A world with no environment variable set, no file, HTTP servers that refuse every
  connection and a mail server that accepts everything.
\<close>

definition quiet_world :: world where
  "quiet_world =
     \<lparr>environ = Map.empty,
      py_int = ascii_int,
      files = Map.empty,
      http_server = (\<lambda>n url hdrs. Inl (Exn RequestException ''connection refused'')),
      requests_sent = [],
      smtp_connect = (\<lambda>host port. None),
      smtp_starttls = None,
      smtp_login = (\<lambda>user pass. None),
      smtp_send_message = (\<lambda>msg. None),
      smtp_quit = None,
      outbox = [],
      stdout = [],
      asctime = ''2024-01-01 00:00:00,000'',
      utcnow_isoformat = ''2024-01-01T00:00:00.000000''\<rparr>"

text \<open>A server that answers every request with the given status and JSON body.\<close>

definition answering :: "nat \<Rightarrow> json \<Rightarrow> nat \<Rightarrow> string \<Rightarrow> headers option \<Rightarrow> exn + response" where
  "answering status data n url hdrs =
     Inr \<lparr>status_code = status, reason = ''reason'', resp_url = url, json_result = Inr data\<rparr>"

section \<open>Auxiliary facts\<close>

lemma raise_for_status_None:
  "\<not> (400 \<le> status_code res \<and> status_code res < 600) \<Longrightarrow> raise_for_status res = None"
  by (auto simp: raise_for_status_def)

subsection \<open>Rows and sheets\<close>

lemma bind_row_accepted:
  "list_all (\<lambda>v. cell_error v = None) vs \<Longrightarrow> bind_row vs = Inr (map new_cell vs)"
  by (induction vs) (simp_all add: bind_value_def)

lemma build_row_dict:
  "build_row (JObject kvs) keys = Inr (map (dict_get kvs) keys)"
  by (induction keys) simp_all

lemma write_rows_records:
  assumes "list_all (\<lambda>kvs. list_all (\<lambda>key. cell_error (dict_get kvs key) = None) keys) records"
  shows "write_rows ws (map JObject records) keys =
     Inr (ws\<lparr>ws_rows := ws_rows ws
            @ map (\<lambda>kvs. map (\<lambda>key. new_cell (dict_get kvs key)) keys) records\<rparr>)"
  using assms
proof (induction records arbitrary: ws)
  case Nil
  then show ?case by simp
next
  case (Cons kvs records)
  from Cons.prems have "list_all (\<lambda>v. cell_error v = None) (map (dict_get kvs) keys)"
    by (simp add: list.pred_map o_def)
  then have row: "bind_row (map (dict_get kvs) keys)
      = Inr (map (\<lambda>key. new_cell (dict_get kvs key)) keys)"
    by (simp add: bind_row_accepted o_def)
  from Cons.prems have rest: "list_all
      (\<lambda>kvs. list_all (\<lambda>key. cell_error (dict_get kvs key) = None) keys) records"
    by simp
  show ?case
    by (simp add: build_row_dict ws_append_def row Cons.IH [OF rest])
qed

lemma max_list_uniform:
  "rows \<noteq> [] \<Longrightarrow> \<forall>row\<in>set rows. length row = n \<Longrightarrow> max_list (map length rows) = n"
proof (induction rows)
  case Nil
  then show ?case by simp
next
  case (Cons row rows)
  then show ?case by (cases "rows = []") simp_all
qed

lemma max_list_replicate_0: "max_list (replicate k 0) = 0"
  by (induction k) simp_all

lemma pad_row_full: "length row = n \<Longrightarrow> pad_row n row = row"
  by (simp add: pad_row_def)

text \<open>Rows of one and the same positive width, within the limits: nothing to fill.\<close>

lemma autosize_columns_uniform:
  assumes "rows \<noteq> []" and "\<forall>row\<in>set rows. length row = n" and "0 < n"
    and "length rows \<le> 1048576" and "n \<le> 18278"
  shows "autosize_columns \<lparr>ws_title = title, ws_rows = rows\<rparr>
           = Inr \<lparr>ws_title = title, ws_rows = rows\<rparr>"
proof -
  have "max_list (map length rows) = n"
    using assms(1,2) by (rule max_list_uniform)
  with assms(3) have cols: "max_column \<lparr>ws_title = title, ws_rows = rows\<rparr> = n"
    by (simp add: max_column_def)
  from assms(1) obtain firsts final where split: "rows = firsts @ [final]"
    by (cases rows rule: rev_cases) auto
  with assms(2,3) have "final \<noteq> []" by auto
  with split have "dropWhile (\<lambda>row. row = []) (rev rows) = rev rows"
    by simp
  with assms(1) have rws: "max_row \<lparr>ws_title = title, ws_rows = rows\<rparr> = length rows"
    by (simp add: max_row_def)
  have "map (pad_row n) rows = rows"
    using assms(2) by (simp add: map_idI pad_row_full)
  with cols rws assms(1,4,5) show ?thesis
    by (simp add: autosize_columns_def)
qed

text \<open>A styled blank cell in row 1 and rows without cells below it.\<close>

lemma autosize_columns_no_columns:
  "autosize_columns \<lparr>ws_title = title, ws_rows = [c] # replicate k []\<rparr>
     = Inr \<lparr>ws_title = title, ws_rows = [c] # replicate k []\<rparr>"
proof -
  have cols: "max_column \<lparr>ws_title = title, ws_rows = [c] # replicate k []\<rparr> = 1"
    by (simp add: max_column_def max_list_replicate_0)
  have "dropWhile (\<lambda>row. row = []) (replicate k ([] :: cell list)) = []"
    by simp
  then have "dropWhile (\<lambda>row. row = []) (rev ([c] # replicate k [])) = [[c]]"
    by (simp add: dropWhile_append3)
  then have rws: "max_row \<lparr>ws_title = title, ws_rows = [c] # replicate k []\<rparr> = 1"
    by (simp add: max_row_def)
  show ?thesis
    by (simp add: autosize_columns_def cols rws pad_row_def)
qed

text \<open>Row 1 of a sheet written on a fresh worksheet.\<close>

lemma write_sheet_fresh:
  assumes hdrs: "list_all (\<lambda>h. cell_error (JStr h) = None) (map fst field_mapping)"
    and recs: "list_all (\<lambda>kvs. list_all (\<lambda>key. cell_error (dict_get kvs key) = None)
                 (map snd field_mapping)) records"
    and rows: "length records < 1048576" and cols: "length field_mapping \<le> 18278"
  shows "write_sheet_from_json (new_sheet title) (JArray (map JObject records)) field_mapping =
     Inr \<lparr>ws_title = title,
          ws_rows =
            (if field_mapping = [] then [set_header_style blank_cell]
             else map (\<lambda>h. set_header_style (new_cell (JStr h))) (map fst field_mapping))
            # map (\<lambda>kvs. map (\<lambda>key. new_cell (dict_get kvs key)) (map snd field_mapping))
                records\<rparr>"
proof -
  let ?hcells = "map new_cell (map JStr (map fst field_mapping))"
  let ?drows = "map (\<lambda>kvs. map (\<lambda>key. new_cell (dict_get kvs key)) (map snd field_mapping))
                  records"
  let ?hrow = "if field_mapping = [] then [set_header_style blank_cell]
               else map (\<lambda>h. set_header_style (new_cell (JStr h))) (map fst field_mapping)"
  from hdrs have "list_all (\<lambda>v. cell_error v = None) (map JStr (map fst field_mapping))"
    by (simp add: list.pred_map o_def)
  then have "bind_row (map JStr (map fst field_mapping)) = Inr ?hcells"
    by (rule bind_row_accepted)
  then have appended: "ws_append (map JStr (map fst field_mapping)) (new_sheet title)
      = Inr \<lparr>ws_title = title, ws_rows = [?hcells]\<rparr>"
    by (simp add: ws_append_def new_sheet_def)
  have styled: "style_header \<lparr>ws_title = title, ws_rows = [?hcells]\<rparr>
      = \<lparr>ws_title = title, ws_rows = [?hrow]\<rparr>"
    by (simp add: style_header_def max_column_def pad_row_def o_def)
  have "write_rows \<lparr>ws_title = title, ws_rows = [?hrow]\<rparr> (map JObject records)
        (map snd field_mapping)
      = Inr (\<lparr>ws_title = title, ws_rows = [?hrow]\<rparr>\<lparr>ws_rows :=
          ws_rows \<lparr>ws_title = title, ws_rows = [?hrow]\<rparr> @ ?drows\<rparr>)"
    by (rule write_rows_records [OF recs])
  then have written: "write_rows \<lparr>ws_title = title, ws_rows = [?hrow]\<rparr> (map JObject records)
        (map snd field_mapping)
      = Inr \<lparr>ws_title = title, ws_rows = ?hrow # ?drows\<rparr>"
    by simp
  have sized: "autosize_columns \<lparr>ws_title = title, ws_rows = ?hrow # ?drows\<rparr>
      = Inr \<lparr>ws_title = title, ws_rows = ?hrow # ?drows\<rparr>"
  proof (cases "field_mapping = []")
    case True
    then have "?drows = replicate (length records) []"
      by (simp add: map_replicate_const)
    with True show ?thesis
      by (simp add: autosize_columns_no_columns)
  next
    case False
    then have "0 < length field_mapping" by simp
    moreover have "\<forall>row\<in>set (?hrow # ?drows). length row = length field_mapping"
      using False by auto
    moreover have "length (?hrow # ?drows) \<le> 1048576"
      using rows by simp
    ultimately show ?thesis
      using cols by (intro autosize_columns_uniform) simp_all
  qed
  show ?thesis
    by (simp only: write_sheet_from_json_def appended sum.case Let_def styled py_iter.simps
        written sized)
qed

lemma concat_utf8_chars: "concat (utf8_chars s) = s"
  by (induction s rule: utf8_chars.induct) simp_all

lemma length_utf8_chars: "length (utf8_chars s) \<le> length s"
proof (induction s rule: utf8_chars.induct)
  case 1
  then show ?case by simp
next
  case (2 c cs)
  have "length (dropWhile is_continuation cs) \<le> length cs"
    by (rule length_dropWhile_le)
  with 2 show ?case by simp
qed

text \<open>A string of at most \<open>n\<close> bytes has at most \<open>n\<close> characters: the slice is the string.\<close>

lemma utf8_take_short: "length s \<le> n \<Longrightarrow> utf8_take n s = s"
proof -
  assume "length s \<le> n"
  with length_utf8_chars [of s] have "length (utf8_chars s) \<le> n" by simp
  then show ?thesis by (simp add: utf8_take_def concat_utf8_chars)
qed

lemma fixed_headers_accepted:
  "list_all (\<lambda>h. cell_error (JStr h) = None) (map fst user_mapping)"
  "list_all (\<lambda>h. cell_error (JStr h) = None) (map fst post_mapping)"
  "list_all (\<lambda>h. cell_error (JStr h) = None) (map fst todo_mapping)"
  by (simp_all add: user_mapping_def post_mapping_def todo_mapping_def utf8_take_short
      illegal_character_def)

lemma fixed_header_cells:
  "map (\<lambda>h. set_header_style (new_cell (JStr h))) (map fst user_mapping) =
     map (\<lambda>h. \<lparr>cell_value = JStr h, data_type = StringCell, header_style = True\<rparr>)
       [''ID'', ''Name'', ''Username'', ''Email'']"
  "map (\<lambda>h. set_header_style (new_cell (JStr h))) (map fst post_mapping) =
     map (\<lambda>h. \<lparr>cell_value = JStr h, data_type = StringCell, header_style = True\<rparr>)
       [''ID'', ''User ID'', ''Title'']"
  "map (\<lambda>h. set_header_style (new_cell (JStr h))) (map fst todo_mapping) =
     map (\<lambda>h. \<lparr>cell_value = JStr h, data_type = StringCell, header_style = True\<rparr>)
       [''ID'', ''User ID'', ''Title'', ''Completed'']"
  by (simp_all add: user_mapping_def post_mapping_def todo_mapping_def utf8_take_short
      set_header_style_def string_type_def ERROR_CODES_def)

lemma record_fits_records:
  "list_all (record_fits keys) items \<Longrightarrow>
     \<exists>recs. items = map JObject recs
       \<and> list_all (\<lambda>kvs. list_all (\<lambda>key. cell_error (dict_get kvs key) = None) keys) recs"
proof (induction items)
  case Nil
  then show ?case by simp
next
  case (Cons item items)
  then obtain recs where recs: "items = map JObject recs"
      "list_all (\<lambda>kvs. list_all (\<lambda>key. cell_error (dict_get kvs key) = None) keys) recs"
    by auto
  from Cons.prems obtain kvs where kvs: "item = JObject kvs"
      "list_all (\<lambda>key. cell_error (dict_get kvs key) = None) keys"
    by (cases item) simp_all
  from recs kvs have "item # items = map JObject (kvs # recs)
      \<and> list_all (\<lambda>kvs. list_all (\<lambda>key. cell_error (dict_get kvs key) = None) keys) (kvs # recs)"
    by simp
  then show ?case ..
qed

lemma records_fit_records:
  assumes "records_fit keys data"
  obtains recs where "data = JArray (map JObject recs)" and "length recs < 1048576"
    and "list_all (\<lambda>kvs. list_all (\<lambda>key. cell_error (dict_get kvs key) = None) keys) recs"
proof -
  from assms obtain items where items: "data = JArray items" "length items < 1048576"
      "list_all (record_fits keys) items"
    by (cases data) simp_all
  from record_fits_records [OF items(3)] obtain recs where "items = map JObject recs"
      "list_all (\<lambda>kvs. list_all (\<lambda>key. cell_error (dict_get kvs key) = None) keys) recs"
    by blast
  with items that show ?thesis by simp
qed

lemma write_sheet_fits:
  assumes "records_fit (map snd field_mapping) data"
    and "list_all (\<lambda>h. cell_error (JStr h) = None) (map fst field_mapping)"
    and "length field_mapping \<le> 18278"
  shows "\<exists>ws. write_sheet_from_json (new_sheet title) data field_mapping = Inr ws"
proof -
  from assms(1) obtain recs where "data = JArray (map JObject recs)" "length recs < 1048576"
      "list_all (\<lambda>kvs. list_all (\<lambda>key. cell_error (dict_get kvs key) = None)
         (map snd field_mapping)) recs"
    by (rule records_fit_records)
  with write_sheet_fresh [OF assms(2) _ _ assms(3), of recs title] show ?thesis
    by simp
qed

lemma create_report_excel_fits:
  assumes "records_fit (map snd user_mapping) users"
    and "records_fit (map snd post_mapping) posts"
    and "records_fit (map snd todo_mapping) todos"
  shows "\<exists>w'. create_report_excel users posts todos file_path w = (Inr file_path, w')"
proof -
  obtain ws_users where "write_sheet_from_json (new_sheet ''Users'') users user_mapping
      = Inr ws_users"
    using write_sheet_fits [OF assms(1) fixed_headers_accepted(1)]
    by (auto simp: user_mapping_def)
  moreover obtain ws_posts where "write_sheet_from_json (new_sheet ''Posts'') posts post_mapping
      = Inr ws_posts"
    using write_sheet_fits [OF assms(2) fixed_headers_accepted(2)]
    by (auto simp: post_mapping_def)
  moreover obtain ws_todos where "write_sheet_from_json (new_sheet ''Todos'') todos todo_mapping
      = Inr ws_todos"
    using write_sheet_fits [OF assms(3) fixed_headers_accepted(3)]
    by (auto simp: todo_mapping_def)
  ultimately show ?thesis
    by (simp add: create_report_excel_def)
qed

subsection \<open>Attachments, fields of the world\<close>

lemma attach_files_append:
  "attach_files w (xs @ ys) = attach_files w xs @ attach_files w ys"
  by (induction xs) (simp_all split: option.splits)

lemma ascii_int_default_port: "ascii_int ''587'' = Some 587"
  by (simp add: ascii_int_def strip_def is_space_def digits_def is_digit_def digit_val_def)

lemma print_fields:
  "requests_sent (print l w) = requests_sent w"
  "environ (print l w) = environ w"
  "py_int (print l w) = py_int w"
  "http_server (print l w) = http_server w"
  "files (print l w) = files w"
  "outbox (print l w) = outbox w"
  by (simp_all add: print_def)

lemma logging_basicConfig_fields:
  "requests_sent (logging_basicConfig w) = requests_sent w"
  "environ (logging_basicConfig w) = environ w"
  "py_int (logging_basicConfig w) = py_int w"
  "http_server (logging_basicConfig w) = http_server w"
  "outbox (logging_basicConfig w) = outbox w"
  by (simp_all add: logging_basicConfig_def split: option.splits)

lemma fetch_api_data_requests_sent:
  "fetch_api_data url hdrs w = (data, w')
     \<Longrightarrow> requests_sent w' = requests_sent w @ [(url, hdrs)]"
  by (auto simp: fetch_api_data_def fetch_try_def requests_get_def print_def log_error_def
      split: sum.splits option.splits)

lemma fetch_api_data_servers:
  "fetch_api_data url hdrs w = (data, w') \<Longrightarrow> http_server w' = http_server w"
  by (auto simp: fetch_api_data_def fetch_try_def requests_get_def print_def log_error_def
      split: sum.splits option.splits)

lemma create_report_excel_requests_sent:
  "create_report_excel users posts todos file_path w = (r, w')
     \<Longrightarrow> requests_sent w' = requests_sent w"
  by (auto simp: create_report_excel_def wb_save_def split: sum.splits)

lemma send_email_requests_sent:
  "requests_sent (send_email_with_attachments smtp_host smtp_port smtp_user smtp_pass to_email
      subject body attachments w) = requests_sent w"
  by (auto simp: send_email_with_attachments_def smtp_session_def print_def log_error_def
      split: option.splits)

text \<open>A failed SMTP session leaves the files as they were.\<close>

lemma smtp_session_files:
  "smtp_session smtp_host smtp_port smtp_user smtp_pass msg w = (r, w')
     \<Longrightarrow> files w' = files w \<and> asctime w' = asctime w"
  by (auto simp: smtp_session_def print_def split: option.splits)

subsection \<open>The main flow, step by step\<close>

text \<open>A run in which \<^verbatim>\<open>int(os.getenv("SMTP_PORT", "587"))\<close> raises.\<close>

lemma main_port_error:
  assumes "py_int w (getenv_default w ''SMTP_PORT'' ''587'') = None"
  shows "main w = (Inl ValueError, print ''Starting multi-API report job...'' (logging_basicConfig w))"
proof -
  let ?w1 = "print ''Starting multi-API report job...'' (logging_basicConfig w)"
  have "environ ?w1 = environ w" and "py_int ?w1 = py_int w"
    by (simp_all add: print_fields logging_basicConfig_fields)
  then have "py_int ?w1 (getenv_default ?w1 ''SMTP_PORT'' ''587'')
      = py_int w (getenv_default w ''SMTP_PORT'' ''587'')"
    by (simp add: getenv_default_def)
  with assms show ?thesis
    by (simp add: main_def Let_def)
qed

text \<open>A run in which the port is read: the steps of the main flow, one by one.\<close>

lemma main_steps:
  assumes "print ''Starting multi-API report job...'' (logging_basicConfig w) = w1"
    and "py_int w1 (getenv_default w1 ''SMTP_PORT'' ''587'') = Some port"
    and "fetch_api_data
           (getenv_default w1 ''API1_URL'' ''https://jsonplaceholder.typicode.com/users'')
           (Some (request_headers w1)) w1 = (users, w2)"
    and "fetch_api_data
           (getenv_default w1 ''API2_URL'' ''https://jsonplaceholder.typicode.com/posts'')
           (Some (request_headers w1)) w2 = (posts, w3)"
    and "fetch_api_data
           (getenv_default w1 ''API3_URL'' ''https://jsonplaceholder.typicode.com/todos'')
           (Some (request_headers w1)) w3 = (todos, w4)"
    and "create_report_excel users posts todos ''daily_report.xlsx''
           (print ''Creating Excel report...'' w4) = (r, w5)"
  shows "main w =
     (case r of
        Inl e \<Rightarrow> (Inl e, w5)
      | Inr report_file \<Rightarrow>
     (case py_len users of Inl e \<Rightarrow> (Inl e, w5) | Inr n_users \<Rightarrow>
     (case py_len posts of Inl e \<Rightarrow> (Inl e, w5) | Inr n_posts \<Rightarrow>
     (case py_len todos of Inl e \<Rightarrow> (Inl e, w5) | Inr n_todos \<Rightarrow>
        (Inr (),
         print ''Job finished.''
           (send_email_with_attachments (environ w1 ''SMTP_HOST'') port
              (environ w1 ''SMTP_USER'') (environ w1 ''SMTP_PASS'') (environ w1 ''TO_EMAIL'')
              ''Daily Multi-API Report''
              (join_lines (body_lines n_users n_posts n_todos w5))
              (attachment_paths report_file (print ''Sending email...'' w5))
              (print ''Sending email...'' w5)))))))"
  using assms by (simp add: main_def Let_def split: sum.splits)

text \<open>The three requests of a run, with the headers built from \<^verbatim>\<open>API_KEY\<close>.\<close>

lemma main_requests_sent:
  assumes "py_int w (getenv_default w ''SMTP_PORT'' ''587'') = Some port"
  shows "requests_sent (snd (main w)) =
           requests_sent w @
           [(getenv_default w ''API1_URL'' ''https://jsonplaceholder.typicode.com/users'',
             Some (request_headers w)),
            (getenv_default w ''API2_URL'' ''https://jsonplaceholder.typicode.com/posts'',
             Some (request_headers w)),
            (getenv_default w ''API3_URL'' ''https://jsonplaceholder.typicode.com/todos'',
             Some (request_headers w))]"
proof -
  define w1 where "w1 = print ''Starting multi-API report job...'' (logging_basicConfig w)"
  have env: "environ w1 = environ w" and rs1: "requests_sent w1 = requests_sent w"
    and int1: "py_int w1 = py_int w"
    by (simp_all add: w1_def print_fields logging_basicConfig_fields)
  from assms have port: "py_int w1 (getenv_default w1 ''SMTP_PORT'' ''587'') = Some port"
    by (simp add: getenv_default_def env int1)
  define hdrs where "hdrs = request_headers w1"
  define u1 where "u1 = getenv_default w1 ''API1_URL'' ''https://jsonplaceholder.typicode.com/users''"
  define u2 where "u2 = getenv_default w1 ''API2_URL'' ''https://jsonplaceholder.typicode.com/posts''"
  define u3 where "u3 = getenv_default w1 ''API3_URL'' ''https://jsonplaceholder.typicode.com/todos''"
  obtain users w2 where f1: "fetch_api_data u1 (Some hdrs) w1 = (users, w2)" by force
  obtain posts w3 where f2: "fetch_api_data u2 (Some hdrs) w2 = (posts, w3)" by force
  obtain todos w4 where f3: "fetch_api_data u3 (Some hdrs) w3 = (todos, w4)" by force
  obtain r w5 where c: "create_report_excel users posts todos ''daily_report.xlsx''
      (print ''Creating Excel report...'' w4) = (r, w5)" by force
  have rs4: "requests_sent w4 = requests_sent w @ [(u1, Some hdrs), (u2, Some hdrs), (u3, Some hdrs)]"
    using fetch_api_data_requests_sent [OF f1] fetch_api_data_requests_sent [OF f2]
      fetch_api_data_requests_sent [OF f3] rs1
    by simp
  have rs5: "requests_sent w5 = requests_sent w4"
    using create_report_excel_requests_sent [OF c] by (simp add: print_fields)
  have final: "requests_sent (snd (main w)) = requests_sent w5"
    using main_steps [OF w1_def [symmetric] port f1 [unfolded u1_def hdrs_def]
        f2 [unfolded u2_def hdrs_def] f3 [unfolded u3_def hdrs_def] c]
    by (simp add: send_email_requests_sent print_fields split: sum.splits)
  have h: "hdrs = request_headers w"
    by (simp add: hdrs_def request_headers_def env)
  have urls: "u1 = getenv_default w ''API1_URL'' ''https://jsonplaceholder.typicode.com/users''"
    "u2 = getenv_default w ''API2_URL'' ''https://jsonplaceholder.typicode.com/posts''"
    "u3 = getenv_default w ''API3_URL'' ''https://jsonplaceholder.typicode.com/todos''"
    by (simp_all add: u1_def u2_def u3_def getenv_default_def env)
  show ?thesis
    unfolding final rs5 rs4 using h urls by simp
qed

text \<open>An answer that fits a mapping makes the fetch return records that fit it.\<close>

lemma fetch_api_data_fits:
  assumes "reply_fits mapping (http_server w (length (requests_sent w)) url hdrs)"
    and "fetch_api_data url hdrs w = (data, w')"
  shows "records_fit (map snd mapping) data"
proof (cases "fetch_try url hdrs w")
  case (Pair r w'')
  show ?thesis
  proof (cases r)
    case (Inl e)
    with Pair assms(2) have "data = JArray []"
      by (simp add: fetch_api_data_def)
    then show ?thesis by simp
  next
    case (Inr d)
    with Pair assms(2) have data: "data = d"
      by (simp add: fetch_api_data_def)
    from Pair Inr obtain res body where
      res: "http_server w (length (requests_sent w)) url hdrs = Inr res"
      and ok: "raise_for_status res = None"
      and body: "json_result res = Inr body"
      and d: "d = (if is_dict body then JArray [body] else body)"
      by (auto simp: fetch_try_def requests_get_def print_def split: sum.splits option.splits)
    from ok have "\<not> (400 \<le> status_code res \<and> status_code res < 600)"
      by (auto simp: raise_for_status_def split: if_splits)
    with assms(1) res body d data show ?thesis
      by (simp add: reply_fits_def)
  qed
qed

text \<open>A run with a usable port and answers that fit the three sheets reaches its last line.\<close>

lemma main_completes:
  assumes "valid_port_setting w"
    and "reply_fits user_mapping (http_server w (length (requests_sent w))
           (getenv_default w ''API1_URL'' ''https://jsonplaceholder.typicode.com/users'')
           (Some (request_headers w)))"
    and "reply_fits post_mapping (http_server w (Suc (length (requests_sent w)))
           (getenv_default w ''API2_URL'' ''https://jsonplaceholder.typicode.com/posts'')
           (Some (request_headers w)))"
    and "reply_fits todo_mapping (http_server w (Suc (Suc (length (requests_sent w))))
           (getenv_default w ''API3_URL'' ''https://jsonplaceholder.typicode.com/todos'')
           (Some (request_headers w)))"
  shows "fst (main w) = Inr ()"
proof -
  define w1 where "w1 = print ''Starting multi-API report job...'' (logging_basicConfig w)"
  have env: "environ w1 = environ w" and srv1: "http_server w1 = http_server w"
    and rs1: "requests_sent w1 = requests_sent w" and int1: "py_int w1 = py_int w"
    by (simp_all add: w1_def print_fields logging_basicConfig_fields)
  from assms(1) obtain port where port: "py_int w1 (getenv_default w1 ''SMTP_PORT'' ''587'') = Some port"
    by (auto simp: valid_port_setting_def getenv_default_def env int1)
  define hdrs where "hdrs = request_headers w1"
  define u1 where "u1 = getenv_default w1 ''API1_URL'' ''https://jsonplaceholder.typicode.com/users''"
  define u2 where "u2 = getenv_default w1 ''API2_URL'' ''https://jsonplaceholder.typicode.com/posts''"
  define u3 where "u3 = getenv_default w1 ''API3_URL'' ''https://jsonplaceholder.typicode.com/todos''"
  have same: "hdrs = request_headers w"
    "u1 = getenv_default w ''API1_URL'' ''https://jsonplaceholder.typicode.com/users''"
    "u2 = getenv_default w ''API2_URL'' ''https://jsonplaceholder.typicode.com/posts''"
    "u3 = getenv_default w ''API3_URL'' ''https://jsonplaceholder.typicode.com/todos''"
    by (simp_all add: hdrs_def u1_def u2_def u3_def request_headers_def getenv_default_def env)
  obtain users w2 where f1: "fetch_api_data u1 (Some hdrs) w1 = (users, w2)" by force
  obtain posts w3 where f2: "fetch_api_data u2 (Some hdrs) w2 = (posts, w3)" by force
  obtain todos w4 where f3: "fetch_api_data u3 (Some hdrs) w3 = (todos, w4)" by force
  have srv2: "http_server w2 = http_server w"
    and rs2: "requests_sent w2 = requests_sent w @ [(u1, Some hdrs)]"
    using fetch_api_data_servers [OF f1] fetch_api_data_requests_sent [OF f1] srv1 rs1
    by simp_all
  have srv3: "http_server w3 = http_server w"
    and rs3: "requests_sent w3 = requests_sent w @ [(u1, Some hdrs), (u2, Some hdrs)]"
    using fetch_api_data_servers [OF f2] fetch_api_data_requests_sent [OF f2] srv2 rs2
    by simp_all
  have users: "records_fit (map snd user_mapping) users"
    using assms(2) by (intro fetch_api_data_fits [OF _ f1]) (simp add: srv1 rs1 same)
  have posts: "records_fit (map snd post_mapping) posts"
    using assms(3) by (intro fetch_api_data_fits [OF _ f2]) (simp add: srv2 rs2 same)
  have todos: "records_fit (map snd todo_mapping) todos"
    using assms(4) by (intro fetch_api_data_fits [OF _ f3]) (simp add: srv3 rs3 same)
  obtain w5 where c: "create_report_excel users posts todos ''daily_report.xlsx''
      (print ''Creating Excel report...'' w4) = (Inr ''daily_report.xlsx'', w5)"
    using create_report_excel_fits [OF users posts todos] by blast
  from users posts todos obtain us ps ts where
    "users = JArray us" "posts = JArray ps" "todos = JArray ts"
    by (cases users; cases posts; cases todos) simp_all
  then show ?thesis
    using main_steps [OF w1_def [symmetric] port f1 [unfolded u1_def hdrs_def]
        f2 [unfolded u2_def hdrs_def] f3 [unfolded u3_def hdrs_def] c]
    by simp
qed

section \<open>Claims\<close>

text \<open>
  C1 (as amended). Whenever a fetch fails, that is, \<^verbatim>\<open>requests.get\<close> raises (transport
  error, timeout), the status is from 400 to 599, or the body does not parse as JSON,
  \<open>fetch_api_data\<close> returns the empty list and appends exactly one entry to the error log,
  with the context "API call failed for url" and the text of the exception; apart from
  that only the console and the list of requests sent change. Nothing is raised: the
  function returns a value and a world.
\<close>

theorem fetch_api_data_failure:
  assumes "http_server w (length (requests_sent w)) url hdrs = reply"
    and "case reply of
           Inl e \<Rightarrow> err = e
         | Inr res \<Rightarrow>
             if 400 \<le> status_code res \<and> status_code res < 600
             then raise_for_status res = Some err
             else json_result res = Inl err"
  shows "fetch_api_data url hdrs w =
           (JArray [],
            w\<lparr>stdout := stdout w @ [''Calling API: '' @ url,
                   ''ERROR: API call failed for '' @ url @ '', check error.log''],
              requests_sent := requests_sent w @ [(url, hdrs)],
              files := (files w)(LOG_FILE \<mapsto> Bytes (log_text w
                 @ error_entry (asctime w) (''API call failed for '' @ url) (exn_str err)))\<rparr>)"
proof (cases reply)
  case (Inl e)
  with assms show ?thesis
    by (simp add: fetch_api_data_def fetch_try_def requests_get_def print_def log_error_def
        log_text_def LOG_FILE_def)
next
  case (Inr res)
  show ?thesis
  proof (cases "400 \<le> status_code res \<and> status_code res < 600")
    case True
    with Inr assms show ?thesis
      by (simp add: fetch_api_data_def fetch_try_def requests_get_def print_def log_error_def
          log_text_def LOG_FILE_def)
  next
    case False
    with Inr assms raise_for_status_None [OF False] show ?thesis
      by (simp add: fetch_api_data_def fetch_try_def requests_get_def print_def log_error_def
          log_text_def LOG_FILE_def)
  qed
qed

text \<open>An instance: status 200 with a body that is not JSON.\<close>

theorem fetch_api_data_failure_witness:
  "fetch_api_data ''http://h/users'' None
      (quiet_world\<lparr>http_server := (\<lambda>n url hdrs.
          Inr \<lparr>status_code = 200, reason = ''OK'', resp_url = url,
               json_result = Inl (Exn JSONDecodeError ''Expecting value'')\<rparr>)\<rparr>) =
     (JArray [],
      quiet_world\<lparr>http_server := (\<lambda>n url hdrs.
          Inr \<lparr>status_code = 200, reason = ''OK'', resp_url = url,
               json_result = Inl (Exn JSONDecodeError ''Expecting value'')\<rparr>),
        stdout := [''Calling API: http://h/users'',
                   ''ERROR: API call failed for http://h/users, check error.log''],
        requests_sent := [(''http://h/users'', None)],
        files := [LOG_FILE \<mapsto> Bytes
          ''2024-01-01 00:00:00,000 [ERROR] API call failed for http://h/users: Expecting value\<newline>'']\<rparr>)"
  using fetch_api_data_failure [of
      "quiet_world\<lparr>http_server := (\<lambda>n url hdrs.
          Inr \<lparr>status_code = 200, reason = ''OK'', resp_url = url,
               json_result = Inl (Exn JSONDecodeError ''Expecting value'')\<rparr>)\<rparr>"
      "''http://h/users''" None _ "Exn JSONDecodeError ''Expecting value''"]
  by (simp add: quiet_world_def log_text_def error_entry_def)

text \<open>
  C1 as stated fails for a status that is neither 2xx nor 4xx/5xx: an answer with status
  300 and a JSON array is returned as it is, and nothing is logged.
\<close>

theorem fetch_api_data_non_2xx_counterexample:
  "http_server (quiet_world\<lparr>http_server := answering 300 (JArray [JObject [(''id'', JInt 1)]])\<rparr>)
       0 ''http://h/users'' None
     = Inr \<lparr>status_code = 300, reason = ''reason'', resp_url = ''http://h/users'',
            json_result = Inr (JArray [JObject [(''id'', JInt 1)]])\<rparr>
   \<and> fetch_api_data ''http://h/users'' None
       (quiet_world\<lparr>http_server := answering 300 (JArray [JObject [(''id'', JInt 1)]])\<rparr>)
     = (JArray [JObject [(''id'', JInt 1)]],
        quiet_world\<lparr>http_server := answering 300 (JArray [JObject [(''id'', JInt 1)]]),
          stdout := [''Calling API: http://h/users''],
          requests_sent := [(''http://h/users'', None)]\<rparr>)
   \<and> log_text (snd (fetch_api_data ''http://h/users'' None
       (quiet_world\<lparr>http_server := answering 300 (JArray [JObject [(''id'', JInt 1)]])\<rparr>))) = []"
  by (simp add: quiet_world_def answering_def fetch_api_data_def fetch_try_def requests_get_def
      print_def raise_for_status_def log_text_def)

text \<open>
  C2 (as amended). For a fetch answered with a 2xx status and a JSON body that is one
  JSON object or an array of JSON objects, the result is a list of records: the
  one-element list holding the object, or the array itself; the files, and so the error
  log, stay as they were.
\<close>

theorem fetch_api_data_success:
  assumes "http_server w (length (requests_sent w)) url hdrs = Inr res"
    and "200 \<le> status_code res" and "status_code res < 300"
    and "json_result res = Inr data"
    and "is_dict data \<or> is_record_list data"
  shows "fst (fetch_api_data url hdrs w) = (if is_dict data then JArray [data] else data)
       \<and> is_record_list (fst (fetch_api_data url hdrs w))
       \<and> files (snd (fetch_api_data url hdrs w)) = files w"
proof -
  from assms(2,3) have "raise_for_status res = None"
    by (simp add: raise_for_status_None)
  with assms(1,4) have result:
    "fetch_api_data url hdrs w =
       (if is_dict data then JArray [data] else data,
        w\<lparr>stdout := stdout w @ [''Calling API: '' @ url],
          requests_sent := requests_sent w @ [(url, hdrs)]\<rparr>)"
    by (simp add: fetch_api_data_def fetch_try_def requests_get_def print_def)
  from assms(5) have "is_record_list (if is_dict data then JArray [data] else data)"
    by auto
  with result show ?thesis by simp
qed

text \<open>An instance: status 200 with one JSON object.\<close>

theorem fetch_api_data_success_witness:
  "fst (fetch_api_data ''http://h/users'' None
      (quiet_world\<lparr>http_server := answering 200 (JObject [(''id'', JInt 1)])\<rparr>))
     = JArray [JObject [(''id'', JInt 1)]]
   \<and> is_record_list (fst (fetch_api_data ''http://h/users'' None
      (quiet_world\<lparr>http_server := answering 200 (JObject [(''id'', JInt 1)])\<rparr>)))
   \<and> files (snd (fetch_api_data ''http://h/users'' None
      (quiet_world\<lparr>http_server := answering 200 (JObject [(''id'', JInt 1)])\<rparr>))) = Map.empty"
  using fetch_api_data_success [of
      "quiet_world\<lparr>http_server := answering 200 (JObject [(''id'', JInt 1)])\<rparr>"
      "''http://h/users''" None
      "\<lparr>status_code = 200, reason = ''reason'', resp_url = ''http://h/users'',
        json_result = Inr (JObject [(''id'', JInt 1)])\<rparr>"
      "JObject [(''id'', JInt 1)]"]
  by (simp add: quiet_world_def answering_def)

text \<open>
  C2 as stated fails: status 200 with the JSON body \<^verbatim>\<open>[1]\<close> is a successful fetch, the
  result is the list \<^verbatim>\<open>[1]\<close>, and the sheet writer cannot treat its element as a record.
\<close>

theorem fetch_api_data_records_counterexample:
  "fst (fetch_api_data ''http://h/users'' None
      (quiet_world\<lparr>http_server := answering 200 (JArray [JInt 1])\<rparr>)) = JArray [JInt 1]
   \<and> \<not> is_record_list (JArray [JInt 1])
   \<and> write_sheet_from_json (new_sheet ''Users'') (JArray [JInt 1]) user_mapping
     = Inl AttributeError"
  by (simp add: quiet_world_def answering_def fetch_api_data_def fetch_try_def requests_get_def
      print_def raise_for_status_def write_sheet_from_json_def user_mapping_def ws_append_def
      bind_value_def utf8_take_short illegal_character_def new_sheet_def)

text \<open>
  C3 (as amended). For every list of fewer than 1048576 records and every field mapping of
  at most 18278 columns, when a worksheet cell accepts each display header and each value
  that a record holds under a mapped source key (that is, the value is no list or dict
  and no string with a control character other than tab, line feed and carriage return),
  \<open>write_sheet_from_json\<close> on a fresh sheet raises nothing and yields the header row (a cell
  for each display header, in the mapping's order, with the header style) followed by one
  row per record, in input order; the cell of a record under a mapping entry holds the
  record's value for the source key, a string cut to its first 32767 characters, and is
  the empty cell when the key is absent. (With an empty mapping row 1 is one blank styled
  cell and the rows of the records hold no cells.)
\<close>

theorem write_sheet_from_json_rows:
  assumes "list_all (\<lambda>h. cell_error (JStr h) = None) (map fst field_mapping)"
    and "list_all (\<lambda>kvs. list_all (\<lambda>key. cell_error (dict_get kvs key) = None)
           (map snd field_mapping)) records"
    and "length records < 1048576" and "length field_mapping \<le> 18278"
  shows "write_sheet_from_json (new_sheet title) (JArray (map JObject records)) field_mapping =
     Inr \<lparr>ws_title = title,
          ws_rows =
            (if field_mapping = [] then [set_header_style blank_cell]
             else map (\<lambda>h. set_header_style (new_cell (JStr h))) (map fst field_mapping))
            # map (\<lambda>kvs. map (\<lambda>key. new_cell (case map_of kvs key of
                                                None \<Rightarrow> JNull | Some v \<Rightarrow> v))
                       (map snd field_mapping)) records\<rparr>
     \<and> cell_value (new_cell v) = (case v of JStr s \<Rightarrow> JStr (utf8_take 32767 s) | _ \<Rightarrow> v)
     \<and> new_cell JNull = blank_cell"
proof -
  have stored: "cell_value (new_cell v) = (case v of JStr s \<Rightarrow> JStr (utf8_take 32767 s) | _ \<Rightarrow> v)"
    by (cases v) simp_all
  have blank: "new_cell JNull = blank_cell"
    by (simp add: blank_cell_def)
  from write_sheet_fresh [OF assms, of title] stored blank show ?thesis
    by (simp add: dict_get_def)
qed

text \<open>An instance: two columns, two records, the second one without a name.\<close>

theorem write_sheet_from_json_rows_witness:
  "write_sheet_from_json (new_sheet ''Users'')
      (JArray [JObject [(''id'', JInt 1), (''name'', JStr ''Ann'')], JObject [(''id'', JInt 2)]])
      [(''ID'', ''id''), (''Name'', ''name'')] =
     Inr \<lparr>ws_title = ''Users'',
          ws_rows =
            [[\<lparr>cell_value = JStr ''ID'', data_type = StringCell, header_style = True\<rparr>,
              \<lparr>cell_value = JStr ''Name'', data_type = StringCell, header_style = True\<rparr>],
             [\<lparr>cell_value = JInt 1, data_type = NumericCell, header_style = False\<rparr>,
              \<lparr>cell_value = JStr ''Ann'', data_type = StringCell, header_style = False\<rparr>],
             [\<lparr>cell_value = JInt 2, data_type = NumericCell, header_style = False\<rparr>,
              \<lparr>cell_value = JNull, data_type = NumericCell, header_style = False\<rparr>]]\<rparr>"
  using write_sheet_from_json_rows [of "[(''ID'', ''id''), (''Name'', ''name'')]"
      "[[(''id'', JInt 1), (''name'', JStr ''Ann'')], [(''id'', JInt 2)]]" "''Users''"]
  by (simp add: dict_get_def utf8_take_short illegal_character_def set_header_style_def
      string_type_def ERROR_CODES_def)

text \<open>
  C3 as stated fails: for the record \<^verbatim>\<open>{"id": [1, 2]}\<close> and the mapping ID to id,
  \<^verbatim>\<open>ws.append\<close> refuses the list and \<open>write_sheet_from_json\<close> raises \<^verbatim>\<open>ValueError\<close>.
\<close>

theorem write_sheet_from_json_counterexample:
  "write_sheet_from_json (new_sheet ''Users'')
      (JArray [JObject [(''id'', JArray [JInt 1, JInt 2])]]) [(''ID'', ''id'')]
     = Inl ValueError"
  by (simp add: write_sheet_from_json_def ws_append_def bind_value_def utf8_take_short
      illegal_character_def new_sheet_def dict_get_def)

text \<open>
  C4 (as amended). For all inputs that are lists of fewer than 1048576 records (the empty
  list among them) whose values under the mapped source keys a worksheet cell accepts,
  \<open>create_report_excel\<close> saves under the given path a workbook of exactly three sheets,
  Users, Posts and Todos in this order, each with its fixed header row and one row per
  record under the fixed source keys, and returns the path it was given.
\<close>

theorem create_report_excel_sheets:
  assumes "list_all (\<lambda>u. list_all (\<lambda>key. cell_error (dict_get u key) = None)
             [''id'', ''name'', ''username'', ''email'']) users"
    and "list_all (\<lambda>p. list_all (\<lambda>key. cell_error (dict_get p key) = None)
             [''id'', ''userId'', ''title'']) posts"
    and "list_all (\<lambda>t. list_all (\<lambda>key. cell_error (dict_get t key) = None)
             [''id'', ''userId'', ''title'', ''completed'']) todos"
    and "length users < 1048576" and "length posts < 1048576" and "length todos < 1048576"
  shows "create_report_excel (JArray (map JObject users)) (JArray (map JObject posts))
       (JArray (map JObject todos)) file_path w =
     (Inr file_path,
      w\<lparr>files := (files w)(file_path \<mapsto> Xlsx
         [\<lparr>ws_title = ''Users'',
           ws_rows =
             map (\<lambda>h. \<lparr>cell_value = JStr h, data_type = StringCell, header_style = True\<rparr>)
               [''ID'', ''Name'', ''Username'', ''Email'']
             # map (\<lambda>u. [new_cell (dict_get u ''id''), new_cell (dict_get u ''name''),
                         new_cell (dict_get u ''username''), new_cell (dict_get u ''email'')])
                 users\<rparr>,
          \<lparr>ws_title = ''Posts'',
           ws_rows =
             map (\<lambda>h. \<lparr>cell_value = JStr h, data_type = StringCell, header_style = True\<rparr>)
               [''ID'', ''User ID'', ''Title'']
             # map (\<lambda>p. [new_cell (dict_get p ''id''), new_cell (dict_get p ''userId''),
                         new_cell (dict_get p ''title'')]) posts\<rparr>,
          \<lparr>ws_title = ''Todos'',
           ws_rows =
             map (\<lambda>h. \<lparr>cell_value = JStr h, data_type = StringCell, header_style = True\<rparr>)
               [''ID'', ''User ID'', ''Title'', ''Completed'']
             # map (\<lambda>t. [new_cell (dict_get t ''id''), new_cell (dict_get t ''userId''),
                         new_cell (dict_get t ''title''), new_cell (dict_get t ''completed'')])
                 todos\<rparr>])\<rparr>)"
proof -
  have users_sheet:
    "write_sheet_from_json (new_sheet ''Users'') (JArray (map JObject users)) user_mapping =
       Inr \<lparr>ws_title = ''Users'',
            ws_rows =
              map (\<lambda>h. \<lparr>cell_value = JStr h, data_type = StringCell, header_style = True\<rparr>)
                [''ID'', ''Name'', ''Username'', ''Email'']
              # map (\<lambda>u. [new_cell (dict_get u ''id''), new_cell (dict_get u ''name''),
                          new_cell (dict_get u ''username''), new_cell (dict_get u ''email'')])
                  users\<rparr>"
    using write_sheet_fresh [OF fixed_headers_accepted(1) _ assms(4), of "''Users''"] assms(1)
      fixed_header_cells(1)
    by (simp add: user_mapping_def)
  have posts_sheet:
    "write_sheet_from_json (new_sheet ''Posts'') (JArray (map JObject posts)) post_mapping =
       Inr \<lparr>ws_title = ''Posts'',
            ws_rows =
              map (\<lambda>h. \<lparr>cell_value = JStr h, data_type = StringCell, header_style = True\<rparr>)
                [''ID'', ''User ID'', ''Title'']
              # map (\<lambda>p. [new_cell (dict_get p ''id''), new_cell (dict_get p ''userId''),
                          new_cell (dict_get p ''title'')]) posts\<rparr>"
    using write_sheet_fresh [OF fixed_headers_accepted(2) _ assms(5), of "''Posts''"] assms(2)
      fixed_header_cells(2)
    by (simp add: post_mapping_def)
  have todos_sheet:
    "write_sheet_from_json (new_sheet ''Todos'') (JArray (map JObject todos)) todo_mapping =
       Inr \<lparr>ws_title = ''Todos'',
            ws_rows =
              map (\<lambda>h. \<lparr>cell_value = JStr h, data_type = StringCell, header_style = True\<rparr>)
                [''ID'', ''User ID'', ''Title'', ''Completed'']
              # map (\<lambda>t. [new_cell (dict_get t ''id''), new_cell (dict_get t ''userId''),
                          new_cell (dict_get t ''title''), new_cell (dict_get t ''completed'')])
                  todos\<rparr>"
    using write_sheet_fresh [OF fixed_headers_accepted(3) _ assms(6), of "''Todos''"] assms(3)
      fixed_header_cells(3)
    by (simp add: todo_mapping_def)
  show ?thesis
    by (simp only: create_report_excel_def users_sheet posts_sheet todos_sheet sum.case
        wb_save_def)
qed

text \<open>An instance: one user, no posts, no todos; the three sheets are all there.\<close>

theorem create_report_excel_sheets_witness:
  "create_report_excel
      (JArray [JObject [(''id'', JInt 1), (''name'', JStr ''Ann''), (''username'', JStr ''a''),
                        (''email'', JStr ''a@x.com'')]])
      (JArray []) (JArray []) ''daily_report.xlsx'' quiet_world =
     (Inr ''daily_report.xlsx'',
      quiet_world\<lparr>files := [''daily_report.xlsx'' \<mapsto> Xlsx
         [\<lparr>ws_title = ''Users'',
           ws_rows =
             [[\<lparr>cell_value = JStr ''ID'', data_type = StringCell, header_style = True\<rparr>,
               \<lparr>cell_value = JStr ''Name'', data_type = StringCell, header_style = True\<rparr>,
               \<lparr>cell_value = JStr ''Username'', data_type = StringCell, header_style = True\<rparr>,
               \<lparr>cell_value = JStr ''Email'', data_type = StringCell, header_style = True\<rparr>],
              [\<lparr>cell_value = JInt 1, data_type = NumericCell, header_style = False\<rparr>,
               \<lparr>cell_value = JStr ''Ann'', data_type = StringCell, header_style = False\<rparr>,
               \<lparr>cell_value = JStr ''a'', data_type = StringCell, header_style = False\<rparr>,
               \<lparr>cell_value = JStr ''a@x.com'', data_type = StringCell, header_style = False\<rparr>]]\<rparr>,
          \<lparr>ws_title = ''Posts'',
           ws_rows =
             [[\<lparr>cell_value = JStr ''ID'', data_type = StringCell, header_style = True\<rparr>,
               \<lparr>cell_value = JStr ''User ID'', data_type = StringCell, header_style = True\<rparr>,
               \<lparr>cell_value = JStr ''Title'', data_type = StringCell, header_style = True\<rparr>]]\<rparr>,
          \<lparr>ws_title = ''Todos'',
           ws_rows =
             [[\<lparr>cell_value = JStr ''ID'', data_type = StringCell, header_style = True\<rparr>,
               \<lparr>cell_value = JStr ''User ID'', data_type = StringCell, header_style = True\<rparr>,
               \<lparr>cell_value = JStr ''Title'', data_type = StringCell, header_style = True\<rparr>,
               \<lparr>cell_value = JStr ''Completed'', data_type = StringCell,
                 header_style = True\<rparr>]]\<rparr>]]\<rparr>)"
  using create_report_excel_sheets [of
      "[[(''id'', JInt 1), (''name'', JStr ''Ann''), (''username'', JStr ''a''),
         (''email'', JStr ''a@x.com'')]]" "[]" "[]" "''daily_report.xlsx''" quiet_world]
  by (simp add: dict_get_def utf8_take_short illegal_character_def string_type_def
      ERROR_CODES_def quiet_world_def)

text \<open>
  C4 as stated fails: for posts \<^verbatim>\<open>[1]\<close> the function raises \<^verbatim>\<open>AttributeError\<close>, and for
  posts \<^verbatim>\<open>[{"title": "a\u0001b"}]\<close> it raises \<^verbatim>\<open>IllegalCharacterError\<close>; in both cases no
  file is written and no path returned.
\<close>

theorem create_report_excel_counterexample:
  "create_report_excel (JArray []) (JArray [JInt 1]) (JArray []) ''daily_report.xlsx'' quiet_world
     = (Inl AttributeError, quiet_world)
   \<and> create_report_excel (JArray [])
       (JArray [JObject [(''title'', JStr [CHR ''a'', CHR 0x01, CHR ''b''])]]) (JArray [])
       ''daily_report.xlsx'' quiet_world
     = (Inl IllegalCharacterError, quiet_world)"
proof -
  have users: "write_sheet_from_json (new_sheet ''Users'') (JArray []) user_mapping
      = Inr \<lparr>ws_title = ''Users'',
             ws_rows = [map (\<lambda>h. set_header_style (new_cell (JStr h))) (map fst user_mapping)]\<rparr>"
    using write_sheet_fresh [OF fixed_headers_accepted(1), of "[]" "''Users''"]
    by (simp add: user_mapping_def)
  have header: "ws_append [JStr ''ID'', JStr ''User ID'', JStr ''Title''] (new_sheet ''Posts'')
      = Inr \<lparr>ws_title = ''Posts'',
             ws_rows = [map new_cell [JStr ''ID'', JStr ''User ID'', JStr ''Title'']]\<rparr>"
    by (simp add: ws_append_def bind_value_def utf8_take_short illegal_character_def
        new_sheet_def)
  have no_record: "write_sheet_from_json (new_sheet ''Posts'') (JArray [JInt 1]) post_mapping
      = Inl AttributeError"
    by (simp add: write_sheet_from_json_def post_mapping_def header)
  have bad_title: "write_sheet_from_json (new_sheet ''Posts'')
      (JArray [JObject [(''title'', JStr [CHR ''a'', CHR 0x01, CHR ''b''])]]) post_mapping
      = Inl IllegalCharacterError"
    by (simp add: write_sheet_from_json_def post_mapping_def header dict_get_def ws_append_def
        bind_value_def utf8_take_short illegal_character_def)
  show ?thesis
    by (simp add: create_report_excel_def users no_record bad_title)
qed

text \<open>
  C5. At the point where the main flow composes the email: the body holds the warning
  line exactly when the error log exists with a size above zero, the log is on the list
  of attachments exactly then, and the message built from that list carries the log as
  a part exactly then. The console line printed between the two checks does not change
  the test.
\<close>

theorem log_warning_and_attachment:
  "(warning_line \<in> set (body_lines n_users n_posts n_todos w)) = log_has_errors w
   \<and> (LOG_FILE \<in> set (attachment_paths ''daily_report.xlsx'' w)) = log_has_errors w
   \<and> (''attachment; filename=error.log'' \<in> content_disposition `
         set (msg_parts (build_message w smtp_user to_email subject body
           (attachment_paths ''daily_report.xlsx'' w)))) = log_has_errors w
   \<and> log_has_errors w = (case files w ''error.log'' of None \<Rightarrow> False | Some c \<Rightarrow> fsize_pos c)
   \<and> log_has_errors (print ''Sending email...'' w) = log_has_errors w"
proof -
  have a: "(warning_line \<in> set (body_lines n_users n_posts n_todos w)) = log_has_errors w"
    by (simp add: body_lines_def warning_line_def)
  have b: "(LOG_FILE \<in> set (attachment_paths ''daily_report.xlsx'' w)) = log_has_errors w"
    by (simp add: attachment_paths_def LOG_FILE_def)
  have d: "log_has_errors w = (case files w ''error.log'' of None \<Rightarrow> False | Some c \<Rightarrow> fsize_pos c)"
    by (simp add: log_has_errors_def path_exists_def getsize_pos_def LOG_FILE_def
        split: option.splits)
  have c: "(''attachment; filename=error.log'' \<in> content_disposition `
         set (msg_parts (build_message w smtp_user to_email subject body
           (attachment_paths ''daily_report.xlsx'' w)))) = log_has_errors w"
    by (auto simp: build_message_def attachment_paths_def basename_def LOG_FILE_def d
        split: option.splits)
  have e: "log_has_errors (print ''Sending email...'' w) = log_has_errors w"
    by (simp add: log_has_errors_def path_exists_def getsize_pos_def print_fields)
  from a b c d e show ?thesis by blast
qed

text \<open>
  C6. An attachment path that does not exist is left out and changes nothing else: the
  message holds the parts of the other paths, in order; the call with the missing path
  in the list ends in the same world as the call without it (so nothing is raised or
  logged on its account); and when the SMTP session succeeds the message with the
  remaining attachments is the one sent.
\<close>

theorem missing_attachment_skipped:
  assumes "\<not> path_exists w p"
  shows "msg_parts (build_message w smtp_user to_email subject body (xs @ p # ys))
           = attach_files w xs @ attach_files w ys
       \<and> send_email_with_attachments smtp_host smtp_port smtp_user smtp_pass to_email subject
             body (xs @ p # ys) w
           = send_email_with_attachments smtp_host smtp_port smtp_user smtp_pass to_email subject
             body (xs @ ys) w
       \<and> (smtp_session smtp_host smtp_port smtp_user smtp_pass
             (build_message w smtp_user to_email subject body (xs @ ys)) w
            = (None, w') \<longrightarrow>
          send_email_with_attachments smtp_host smtp_port smtp_user smtp_pass to_email subject
             body (xs @ p # ys) w = w'
          \<and> files w' = files w
          \<and> outbox w' = outbox w @ [build_message w smtp_user to_email subject body (xs @ ys)])"
proof -
  from assms have none: "files w p = None"
    by (simp add: path_exists_def)
  have same: "build_message w smtp_user to_email subject body (xs @ p # ys)
      = build_message w smtp_user to_email subject body (xs @ ys)"
    by (simp add: build_message_def attach_files_append none)
  have parts: "msg_parts (build_message w smtp_user to_email subject body (xs @ p # ys))
           = attach_files w xs @ attach_files w ys"
    by (simp add: build_message_def attach_files_append none)
  have sent: "smtp_session smtp_host smtp_port smtp_user smtp_pass m w = (None, w')
      \<Longrightarrow> files w' = files w \<and> outbox w' = outbox w @ [m]" for m
    by (auto simp: smtp_session_def print_def split: option.splits)
  show ?thesis
    using parts sent
    by (auto simp: send_email_with_attachments_def same)
qed

theorem missing_attachment_skipped_witness:
  "send_email_with_attachments (Some ''mail.example'') 587 (Some ''bot'') (Some ''pw'')
       (Some ''ops@example'') ''Daily Multi-API Report'' ''Hello,''
       [''daily_report.xlsx'', ''error.log'']
       (quiet_world\<lparr>files := [''daily_report.xlsx'' \<mapsto> Xlsx []]\<rparr>)
     = quiet_world\<lparr>files := [''daily_report.xlsx'' \<mapsto> Xlsx []],
         outbox := [\<lparr>msg_from = Some ''bot'', msg_to = Some ''ops@example'',
                     msg_subject = ''Daily Multi-API Report'', msg_body = ''Hello,'',
                     msg_parts = [\<lparr>content_disposition = ''attachment; filename=daily_report.xlsx'',
                                   payload = Xlsx []\<rparr>]\<rparr>],
         stdout := [''Email sent successfully!'']\<rparr>"
  using missing_attachment_skipped [of
      "quiet_world\<lparr>files := [''daily_report.xlsx'' \<mapsto> Xlsx []]\<rparr>" "''error.log''"
      "Some ''bot''" "Some ''ops@example''" "''Daily Multi-API Report''" "''Hello,''"
      "[''daily_report.xlsx'']" "[]" "Some ''mail.example''" 587 "Some ''pw''"
      "quiet_world\<lparr>files := [''daily_report.xlsx'' \<mapsto> Xlsx []],
         outbox := [\<lparr>msg_from = Some ''bot'', msg_to = Some ''ops@example'',
                     msg_subject = ''Daily Multi-API Report'', msg_body = ''Hello,'',
                     msg_parts = [\<lparr>content_disposition = ''attachment; filename=daily_report.xlsx'',
                                   payload = Xlsx []\<rparr>]\<rparr>],
         stdout := [''Email sent successfully!'']\<rparr>"]
  by (simp add: quiet_world_def path_exists_def smtp_session_def build_message_def print_def
      basename_def send_email_with_attachments_def)

text \<open>
  C7 (as amended). A failure of the SMTP session (connect, \<^verbatim>\<open>starttls\<close>, login, send or
  quit) is caught inside \<open>send_email_with_attachments\<close>, which returns with one entry of
  context "Email sending failed" appended to the error log. The whole run reaches its
  last line and exits 0 whenever \<^verbatim>\<open>int\<close> accepts the port setting and each of the three
  API answers is a failure (transport error, status from 400 to 599, body that is not
  JSON) or holds one JSON object or an array of fewer than 1048576 JSON objects whose
  values under the source keys of its sheet a worksheet cell accepts (file operations
  never fail in this model).
\<close>

theorem failures_are_caught:
  "(fst (smtp_session smtp_host smtp_port smtp_user smtp_pass
          (build_message w smtp_user to_email subject body attachments) w) = Some e
      \<longrightarrow> files (send_email_with_attachments smtp_host smtp_port smtp_user smtp_pass to_email
             subject body attachments w)
          = (files w)(LOG_FILE \<mapsto> Bytes (log_text w
               @ error_entry (asctime w) ''Email sending failed'' (exn_str e))))
   \<and> (valid_port_setting w0
       \<and> reply_fits user_mapping (http_server w0 (length (requests_sent w0))
            (getenv_default w0 ''API1_URL'' ''https://jsonplaceholder.typicode.com/users'')
            (Some (request_headers w0)))
       \<and> reply_fits post_mapping (http_server w0 (Suc (length (requests_sent w0)))
            (getenv_default w0 ''API2_URL'' ''https://jsonplaceholder.typicode.com/posts'')
            (Some (request_headers w0)))
       \<and> reply_fits todo_mapping (http_server w0 (Suc (Suc (length (requests_sent w0))))
            (getenv_default w0 ''API3_URL'' ''https://jsonplaceholder.typicode.com/todos'')
            (Some (request_headers w0)))
      \<longrightarrow> fst (main w0) = Inr ())"
proof (intro conjI impI)
  assume failed: "fst (smtp_session smtp_host smtp_port smtp_user smtp_pass
          (build_message w smtp_user to_email subject body attachments) w) = Some e"
  then obtain w' where s: "smtp_session smtp_host smtp_port smtp_user smtp_pass
          (build_message w smtp_user to_email subject body attachments) w = (Some e, w')"
    by (cases "smtp_session smtp_host smtp_port smtp_user smtp_pass
          (build_message w smtp_user to_email subject body attachments) w") simp
  from smtp_session_files [OF s] have "files w' = files w" and "asctime w' = asctime w"
    by simp_all
  with s show "files (send_email_with_attachments smtp_host smtp_port smtp_user smtp_pass
        to_email subject body attachments w)
      = (files w)(LOG_FILE \<mapsto> Bytes (log_text w
           @ error_entry (asctime w) ''Email sending failed'' (exn_str e)))"
    by (simp add: send_email_with_attachments_def print_def log_error_def log_text_def)
next
  assume "valid_port_setting w0
       \<and> reply_fits user_mapping (http_server w0 (length (requests_sent w0))
            (getenv_default w0 ''API1_URL'' ''https://jsonplaceholder.typicode.com/users'')
            (Some (request_headers w0)))
       \<and> reply_fits post_mapping (http_server w0 (Suc (length (requests_sent w0)))
            (getenv_default w0 ''API2_URL'' ''https://jsonplaceholder.typicode.com/posts'')
            (Some (request_headers w0)))
       \<and> reply_fits todo_mapping (http_server w0 (Suc (Suc (length (requests_sent w0))))
            (getenv_default w0 ''API3_URL'' ''https://jsonplaceholder.typicode.com/todos'')
            (Some (request_headers w0)))"
  then show "fst (main w0) = Inr ()"
    by (intro main_completes) simp_all
qed

text \<open>
  An instance: the first API answers with one record, the second with status 500 and a
  JSON string, the third with an empty array, and the mail server refuses the login.
\<close>

theorem failures_are_caught_witness:
  "files (send_email_with_attachments (Some ''mail.example'') 587 (Some ''bot'') (Some ''pw'')
       (Some ''ops@example'') ''Daily Multi-API Report'' ''Hello,'' []
       (quiet_world\<lparr>smtp_login := (\<lambda>user pass. Some (Exn SMTPException ''auth failed''))\<rparr>))
     = [LOG_FILE \<mapsto> Bytes ''2024-01-01 00:00:00,000 [ERROR] Email sending failed: auth failed\<newline>'']
   \<and> fst (main (quiet_world\<lparr>
          http_server := (\<lambda>n. if n = 0 then answering 200 (JObject [(''id'', JInt 1)]) n
                              else if n = 1 then answering 500 (JStr ''down'') n
                              else answering 200 (JArray []) n),
          smtp_login := (\<lambda>user pass. Some (Exn SMTPException ''auth failed''))\<rparr>))
     = Inr ()"
  using failures_are_caught [of "Some ''mail.example''" 587 "Some ''bot''" "Some ''pw''"
      "quiet_world\<lparr>smtp_login := (\<lambda>user pass. Some (Exn SMTPException ''auth failed''))\<rparr>"
      "Some ''ops@example''" "''Daily Multi-API Report''" "''Hello,''" "[]"
      "Exn SMTPException ''auth failed''"
      "quiet_world\<lparr>
          http_server := (\<lambda>n. if n = 0 then answering 200 (JObject [(''id'', JInt 1)]) n
                              else if n = 1 then answering 500 (JStr ''down'') n
                              else answering 200 (JArray []) n),
          smtp_login := (\<lambda>user pass. Some (Exn SMTPException ''auth failed''))\<rparr>"]
  by (simp add: quiet_world_def smtp_session_def valid_port_setting_def reply_fits_def
      answering_def log_text_def error_entry_def getenv_default_def ascii_int_default_port
      user_mapping_def post_mapping_def todo_mapping_def dict_get_def)

text \<open>
  C7 as stated fails: with \<^verbatim>\<open>SMTP_PORT=smtp\<close> the run ends in an uncaught \<^verbatim>\<open>ValueError\<close>
  and no message is sent.
\<close>

theorem run_aborts_counterexample:
  "fst (main (quiet_world\<lparr>environ := [''SMTP_PORT'' \<mapsto> ''smtp'']\<rparr>)) = Inl ValueError
   \<and> outbox (snd (main (quiet_world\<lparr>environ := [''SMTP_PORT'' \<mapsto> ''smtp'']\<rparr>))) = []"
proof -
  have "py_int (quiet_world\<lparr>environ := [''SMTP_PORT'' \<mapsto> ''smtp'']\<rparr>)
      (getenv_default (quiet_world\<lparr>environ := [''SMTP_PORT'' \<mapsto> ''smtp'']\<rparr>)
        ''SMTP_PORT'' ''587'') = None"
    by (simp add: getenv_default_def quiet_world_def ascii_int_def strip_def is_space_def
        digits_def is_digit_def)
  from main_port_error [OF this] show ?thesis
    by (simp add: print_fields logging_basicConfig_fields quiet_world_def)
qed

text \<open>
  C8 (as amended). Every request of a run carries exactly the headers built from
  \<^verbatim>\<open>API_KEY\<close>: none when the variable is unset or empty, and
  \<^verbatim>\<open>Authorization: Bearer <value>\<close> when it is set to a non-empty value; with a usable
  \<^verbatim>\<open>SMTP_PORT\<close> the run sends exactly three requests.
\<close>

theorem request_authorization_header:
  "list_all
     (\<lambda>request. snd request =
        Some (case environ w ''API_KEY'' of
                None \<Rightarrow> []
              | Some key \<Rightarrow>
                  if key = [] then [] else [(''Authorization'', ''Bearer '' @ key)]))
     (drop (length (requests_sent w)) (requests_sent (snd (main w))))
   \<and> (valid_port_setting w
      \<longrightarrow> length (requests_sent (snd (main w))) = length (requests_sent w) + 3)"
proof (cases "py_int w (getenv_default w ''SMTP_PORT'' ''587'')")
  case None
  then have "\<not> valid_port_setting w"
    by (simp add: valid_port_setting_def)
  moreover from main_port_error [OF None] have "requests_sent (snd (main w)) = requests_sent w"
    by (simp add: print_fields logging_basicConfig_fields)
  ultimately show ?thesis by simp
next
  case (Some port)
  have "request_headers w =
      (case environ w ''API_KEY'' of
         None \<Rightarrow> []
       | Some key \<Rightarrow> if key = [] then [] else [(''Authorization'', ''Bearer '' @ key)])"
    by (simp add: request_headers_def split: option.splits)
  with main_requests_sent [OF Some] show ?thesis by simp
qed

theorem request_authorization_header_witness:
  "list_all (\<lambda>request. snd request = Some [(''Authorization'', ''Bearer secret'')])
     (requests_sent (snd (main (quiet_world\<lparr>environ := [''API_KEY'' \<mapsto> ''secret'']\<rparr>))))
   \<and> length (requests_sent (snd (main (quiet_world\<lparr>environ := [''API_KEY'' \<mapsto> ''secret'']\<rparr>)))) = 3"
  using request_authorization_header [of "quiet_world\<lparr>environ := [''API_KEY'' \<mapsto> ''secret'']\<rparr>"]
  by (simp add: quiet_world_def valid_port_setting_def getenv_default_def
      ascii_int_default_port)

text \<open>
  C8 as stated fails when \<^verbatim>\<open>API_KEY\<close> is set to the empty string: the variable is set,
  and the three requests go out without an \<^verbatim>\<open>Authorization\<close> header.
\<close>

theorem empty_api_key_counterexample:
  "environ (quiet_world\<lparr>environ := [''API_KEY'' \<mapsto> []]\<rparr>) ''API_KEY'' = Some []
   \<and> map snd (requests_sent (snd (main (quiet_world\<lparr>environ := [''API_KEY'' \<mapsto> []]\<rparr>))))
     = [Some [], Some [], Some []]"
proof -
  have "py_int (quiet_world\<lparr>environ := [''API_KEY'' \<mapsto> []]\<rparr>)
      (getenv_default (quiet_world\<lparr>environ := [''API_KEY'' \<mapsto> []]\<rparr>)
        ''SMTP_PORT'' ''587'') = Some 587"
    by (simp add: getenv_default_def quiet_world_def ascii_int_default_port)
  from main_requests_sent [OF this] show ?thesis
    by (simp add: quiet_world_def request_headers_def)
qed

text \<open>
  C9 compares the bytes of two saved files. A saved workbook is held here as the workbook
  itself; the bytes that openpyxl and the zip writer produce for it (entry order,
  compression, time stamps in the document properties) are not modelled, so the claim
  has no statement in this theory.
\<close>

text \<open>
  C10. When \<^verbatim>\<open>SMTP_PORT\<close> is set to text that is not an integer literal, that is, text
  on which \<^verbatim>\<open>int\<close> raises \<^verbatim>\<open>ValueError\<close>, the run ends in that uncaught \<^verbatim>\<open>ValueError\<close>
  right after the logging setup and the first console line: no request was sent, no
  report written, no message handed to the mail server.
\<close>

theorem invalid_smtp_port_aborts:
  assumes "environ w ''SMTP_PORT'' = Some s" and "py_int w s = None"
  shows "fst (main w) = Inl ValueError
       \<and> snd (main w) = print ''Starting multi-API report job...'' (logging_basicConfig w)
       \<and> requests_sent (snd (main w)) = requests_sent w
       \<and> outbox (snd (main w)) = outbox w
       \<and> files (snd (main w)) ''daily_report.xlsx'' = files w ''daily_report.xlsx''"
proof -
  from assms have "py_int w (getenv_default w ''SMTP_PORT'' ''587'') = None"
    by (simp add: getenv_default_def)
  from main_port_error [OF this] show ?thesis
    by (simp add: print_def logging_basicConfig_def LOG_FILE_def split: option.splits)
qed

theorem invalid_smtp_port_aborts_witness:
  "fst (main (quiet_world\<lparr>environ := [''SMTP_PORT'' \<mapsto> ''abc'']\<rparr>)) = Inl ValueError
   \<and> requests_sent (snd (main (quiet_world\<lparr>environ := [''SMTP_PORT'' \<mapsto> ''abc'']\<rparr>))) = []
   \<and> outbox (snd (main (quiet_world\<lparr>environ := [''SMTP_PORT'' \<mapsto> ''abc'']\<rparr>))) = []
   \<and> files (snd (main (quiet_world\<lparr>environ := [''SMTP_PORT'' \<mapsto> ''abc'']\<rparr>)))
        ''daily_report.xlsx'' = None"
  using invalid_smtp_port_aborts [of "quiet_world\<lparr>environ := [''SMTP_PORT'' \<mapsto> ''abc'']\<rparr>" "''abc''"]
  by (simp add: quiet_world_def print_def logging_basicConfig_def LOG_FILE_def
      ascii_int_def strip_def is_space_def digits_def is_digit_def)

end
